theory Spec2Isabelle
  imports Complex_Main "HOL-Library.Multiset"
begin

section \<open>Python values, exceptions and sequencing\<close>

text \<open>
  The function \<open>geocontext\<close> of the notebook is embedded as a pure function that returns
  an outcome: what the call returns or raises, and the state in which it leaves the two
  caller-owned objects it mutates in place (the reference table \<open>popLocations\<close> and the
  list \<open>kValues\<close>). Exceptions are values: \<open>Inl e\<close> is a raise that nothing catches.
  Numbers are the real numbers: floating-point rounding is not modelled.
\<close>

datatype error =
    TypeError string
  | IndexError string
  | KeyError string
  | ZeroDivisionError string
  | ValueError string

text \<open>An argument as the type checks of \<open>geocontext\<close> see it: a list, a string, or any other object.\<close>

datatype 'a pyarg = PyList "'a list" | PyStr string | PyOther

definition and_then :: "error + 'a \<Rightarrow> ('a \<Rightarrow> error + 'b) \<Rightarrow> error + 'b" where
  "and_then m f = (case m of Inl e \<Rightarrow> Inl e | Inr v \<Rightarrow> f v)"

text \<open>Python list indexing by a non-negative index.\<close>

definition list_get :: "'a list \<Rightarrow> nat \<Rightarrow> error + 'a" where
  "list_get xs i = (if i < length xs then Inr (xs ! i) else Inl (IndexError ''list index out of range''))"

text \<open>The decimal text of an integer, as an f-string and \<open>str\<close> print it.\<close>

fun str_nat :: "nat \<Rightarrow> string" where
  "str_nat n = (if n < 10 then [''0123456789'' ! n]
                else str_nat (n div 10) @ [''0123456789'' ! (n mod 10)])"

definition str_int :: "int \<Rightarrow> string" where
  "str_int i = (if i < 0 then CHR ''-'' # str_nat (nat (- i)) else str_nat (nat i))"

section \<open>Data frames\<close>

text \<open>
  A DataFrame is the list of its rows in their current order; a row carries its index label
  and its cells by column name. A name that is no column of a row raises KeyError. (A frame
  with no rows keeps no record of its columns: every lookup on it gives the empty column.)
\<close>

record row =
  label :: int
  cells :: "string \<rightharpoonup> real"

type_synonym dataframe = "row list"

definition getitem :: "row \<Rightarrow> string \<Rightarrow> error + real" where
  "getitem r c = (case cells r c of None \<Rightarrow> Inl (KeyError c) | Some v \<Rightarrow> Inr v)"

fun column :: "dataframe \<Rightarrow> string \<Rightarrow> error + real list" where
  "column [] c = Inr []"
| "column (r # rs) c =
     and_then (getitem r c) (\<lambda>v. and_then (column rs c) (\<lambda>vs. Inr (v # vs)))"

text \<open>\<open>df[c] = values\<close>, row by row.\<close>

definition setitem :: "dataframe \<Rightarrow> string \<Rightarrow> real list \<Rightarrow> dataframe" where
  "setitem df c vs = map (\<lambda>(r, v). r\<lparr>cells := (cells r)(c \<mapsto> v)\<rparr>) (zip df vs)"

text \<open>\<open>series.iloc[i]\<close>: positional, a negative position counts from the end.\<close>

definition iloc :: "'a list \<Rightarrow> int \<Rightarrow> error + 'a" where
  "iloc xs i =
     (let n = int (length xs) in
      if 0 \<le> i \<and> i < n then Inr (xs ! nat i)
      else if - n \<le> i \<and> i < 0 then Inr (xs ! nat (n + i))
      else Inl (IndexError ''single positional indexer is out-of-bounds''))"

text \<open>
  \<open>df.sort_values('Distance', inplace=True)\<close>. The ascending order is modelled by the
  insertion sort of the library, which keeps rows of equal distance in the order they had
  in the frame being sorted. The default sort kind of pandas promises an ascending
  rearrangement only; the general theorems below use no more than that, and the concrete
  calls evaluated below have at most three rows.
\<close>

definition sort_values :: "dataframe \<Rightarrow> dataframe" where
  "sort_values df = sort_key (\<lambda>r. the (cells r ''Distance'')) df"

section \<open>Checking the format of the arguments (lines 98 to 113)\<close>

text \<open>\<open>type(x) == list\<close>, and the elements of a list argument.\<close>

definition is_list :: "'a pyarg \<Rightarrow> bool" where
  "is_list a = (case a of PyList xs \<Rightarrow> True | PyStr s \<Rightarrow> False | PyOther \<Rightarrow> False)"

definition items :: "'a pyarg \<Rightarrow> 'a list" where
  "items a = (case a of PyList xs \<Rightarrow> xs | PyStr s \<Rightarrow> [] | PyOther \<Rightarrow> [])"

text \<open>The checks in the order of the source; on success the lists and the flag \<open>multi\<close>.\<close>

definition check_format ::
  "string pyarg \<Rightarrow> string pyarg \<Rightarrow> int pyarg
   \<Rightarrow> error + (string list \<times> string list \<times> bool \<times> int list)" where
  "check_format groups populations kValues =
     (if \<not> is_list groups then Inl (TypeError ''groups need to be a list with column names'')
      else
        and_then
          (if is_list populations then
             (if length (items populations) = 1 then Inr False
              else if length (items groups) \<noteq> length (items populations)
                   then Inl (IndexError ''populations need to have the same length as groups'')
                   else Inr True)
           else Inl (TypeError
                       ''populations need to be a column name or a list with column names''))
          (\<lambda>multi.
             if \<not> is_list kValues then Inl (TypeError ''kValues need to be a list with k-values'')
             else Inr (items groups, items populations, multi, items kValues)))"

section \<open>Distances from one point (lines 133 to 138)\<close>

text \<open>
  \<open>astype('int')\<close> on a float drops the fractional part. The integer distances are
  stored in the column as every other cell is, as real numbers.
\<close>

definition astype_int :: "real \<Rightarrow> int" where
  "astype_int x = (if 0 \<le> x then \<lfloor>x\<rfloor> else \<lceil>x\<rceil>)"

definition distances ::
  "row \<Rightarrow> string \<Rightarrow> string \<Rightarrow> dataframe \<Rightarrow> string \<Rightarrow> string \<Rightarrow> error + real list" where
  "distances point pointsNorth pointsEast popLocations popLocationsNorth popLocationsEast =
     and_then (getitem point pointsNorth) (\<lambda>pn.
     and_then (column popLocations popLocationsNorth) (\<lambda>lns.
     and_then (getitem point pointsEast) (\<lambda>pe.
     and_then (column popLocations popLocationsEast) (\<lambda>les.
       Inr (map (\<lambda>(ln, le). real_of_int (astype_int (sqrt ((pn - ln)\<^sup>2 + (pe - le)\<^sup>2))))
                (zip lns les))))))"

definition distance_index ::
  "row \<Rightarrow> string \<Rightarrow> string \<Rightarrow> dataframe \<Rightarrow> string \<Rightarrow> string \<Rightarrow> error + dataframe" where
  "distance_index point pointsNorth pointsEast popLocations popLocationsNorth popLocationsEast =
     and_then (distances point pointsNorth pointsEast popLocations popLocationsNorth popLocationsEast)
       (\<lambda>ds. Inr (sort_values (setitem popLocations ''Distance'' ds)))"

section \<open>Solving the radii of one population column (lines 145 to 165)\<close>

text \<open>
  The inner \<open>while\<close> loop. The population column is looked up each time the body runs, so
  the lookup \<open>pcol\<close> is passed as it would come out: a missing column raises only if the
  body is entered. Reading position \<open>index\<close> past the last row raises IndexError.
\<close>

function while_walk :: "error + real list \<Rightarrow> int \<Rightarrow> real \<Rightarrow> int \<Rightarrow> error + (real \<times> int)" where
  "while_walk pcol kValue population index =
     (if population < real_of_int kValue then
        (case pcol of
           Inl e \<Rightarrow> Inl e
         | Inr pops \<Rightarrow>
             (case iloc pops index of
                Inl e \<Rightarrow> Inl e
              | Inr p \<Rightarrow> while_walk pcol kValue (population + p) (index + 1)))
      else Inr (population, index))"
  by pat_completeness auto
termination
  by (relation "measure (\<lambda>(pcol, kValue, population, index).
        case pcol of Inl e \<Rightarrow> 0 | Inr pops \<Rightarrow> nat (int (length pops) - index))")
     (auto simp: iloc_def Let_def split: if_splits)

text \<open>
  The loop over the k-values: the state is the accumulated population, the position, the
  list of radii and the result dictionary of the point.
\<close>

fun radius_loop ::
  "dataframe \<Rightarrow> string \<Rightarrow> bool \<Rightarrow> string list \<Rightarrow> nat \<Rightarrow> int list
   \<Rightarrow> real \<times> int \<times> real list \<times> (string \<rightharpoonup> real)
   \<Rightarrow> error + (real \<times> int \<times> real list \<times> (string \<rightharpoonup> real))" where
  "radius_loop popLocations pop_Column multi groups groupIndex [] st = Inr st"
| "radius_loop popLocations pop_Column multi groups groupIndex (kValue # kValues)
     (population, index, radius_List, result) =
     and_then (while_walk (column popLocations pop_Column) kValue population index)
       (\<lambda>(population', index').
     and_then (and_then (column popLocations ''Distance'') (\<lambda>ds. iloc ds (index' - 1)))
       (\<lambda>radius.
     and_then
       (if multi
        then and_then (list_get groups groupIndex)
               (\<lambda>g. Inr (result(''radius_'' @ g @ ''_k'' @ str_int kValue \<mapsto> radius)))
        else Inr (result(''radius_k'' @ str_int kValue \<mapsto> radius)))
       (\<lambda>result'.
     radius_loop popLocations pop_Column multi groups groupIndex kValues
       (population', index', radius_List @ [radius], result'))))"

section \<open>Aggregating over a selection (lines 169 to 219)\<close>

text \<open>\<open>popLocations[popLocations['Distance'] <= radius]\<close>: the rows whose mask entry is true.\<close>

definition selection_within :: "dataframe \<Rightarrow> real \<Rightarrow> error + dataframe" where
  "selection_within popLocations radius =
     and_then (column popLocations ''Distance'')
       (\<lambda>ds. Inr (map fst (filter (\<lambda>(r, d). d \<le> radius) (zip popLocations ds))))"

text \<open>\<open>np.average(a, weights=w)\<close> raises when the weights sum to zero.\<close>

definition np_average :: "real list \<Rightarrow> real list \<Rightarrow> error + real" where
  "np_average a weights =
     (if sum_list weights = 0 then Inl (ZeroDivisionError ''Weights sum to zero'')
      else Inr (sum_list (map (\<lambda>(x, w). x * w) (zip a weights)) / sum_list weights))"

definition math_sqrt :: "real \<Rightarrow> error + real" where
  "math_sqrt x = (if x < 0 then Inl (ValueError ''math domain error'') else Inr (sqrt x))"

definition weighted :: "dataframe \<Rightarrow> string \<Rightarrow> string \<Rightarrow> error + (real \<times> real)" where
  "weighted selection grp pop_Column =
     and_then (column selection grp) (\<lambda>vs.
     and_then (column selection pop_Column) (\<lambda>ws.
     and_then (np_average vs ws) (\<lambda>average.
     and_then (np_average (map (\<lambda>v. (v - average)\<^sup>2) vs) ws) (\<lambda>variance.
     and_then (math_sqrt variance) (\<lambda>std. Inr (average, std))))))"

text \<open>The statistic of one group for one k, by the flag that the caller read from \<open>proportions\<close>.\<close>

definition aggregate ::
  "dataframe \<Rightarrow> string \<Rightarrow> string \<Rightarrow> bool \<Rightarrow> int \<Rightarrow> (string \<rightharpoonup> real) \<Rightarrow> error + (string \<rightharpoonup> real)" where
  "aggregate selection grp pop_Column flag kValue result =
     (if flag
      then and_then (column selection grp)
             (\<lambda>vs. Inr (result(''group_'' @ grp @ ''_k'' @ str_int kValue \<mapsto> sum_list vs)))
      else and_then (weighted selection grp pop_Column)
             (\<lambda>(average, std).
                Inr (result(''mean_'' @ grp @ ''_k'' @ str_int kValue \<mapsto> average,
                            ''std_'' @ grp @ ''_k'' @ str_int kValue \<mapsto> std))))"

text \<open>
  Single-population mode, \<open>for group in groups\<close>: the flag is read at \<open>groupIndex\<close>, which
  this loop does not advance.
\<close>

fun group_loop ::
  "dataframe \<Rightarrow> string \<Rightarrow> bool list \<Rightarrow> nat \<Rightarrow> int \<Rightarrow> string list \<Rightarrow> (string \<rightharpoonup> real)
   \<Rightarrow> error + (string \<rightharpoonup> real)" where
  "group_loop selection pop_Column proportions groupIndex kValue [] result = Inr result"
| "group_loop selection pop_Column proportions groupIndex kValue (grp # groups) result =
     and_then (list_get proportions groupIndex) (\<lambda>flag.
     and_then (aggregate selection grp pop_Column flag kValue result) (\<lambda>result'.
     group_loop selection pop_Column proportions groupIndex kValue groups result'))"

text \<open>The body of \<open>for k_Index in range(len(kValues))\<close>.\<close>

definition stats_step ::
  "dataframe \<Rightarrow> string \<Rightarrow> bool \<Rightarrow> string list \<Rightarrow> bool list \<Rightarrow> nat \<Rightarrow> int list \<Rightarrow> real list
   \<Rightarrow> nat \<Rightarrow> (string \<rightharpoonup> real) \<Rightarrow> error + (string \<rightharpoonup> real)" where
  "stats_step popLocations pop_Column multi groups proportions groupIndex kValues radius_List
     k_Index result =
     and_then (list_get radius_List k_Index) (\<lambda>radius.
     and_then (selection_within popLocations radius) (\<lambda>selection.
     and_then
       (if multi
        then and_then (list_get proportions groupIndex) (\<lambda>flag.
             and_then (list_get groups groupIndex) (\<lambda>g.
             and_then (list_get kValues k_Index) (\<lambda>kValue.
               aggregate selection g pop_Column flag kValue result)))
        else and_then (list_get kValues k_Index) (\<lambda>kValue.
               group_loop selection pop_Column proportions groupIndex kValue groups result))
       (\<lambda>result'.
     and_then (column selection pop_Column) (\<lambda>ws.
       if multi
       then and_then (list_get groups groupIndex) (\<lambda>g.
            and_then (list_get kValues k_Index) (\<lambda>kValue.
              Inr (result'(''total_'' @ g @ ''_k'' @ str_int kValue \<mapsto> sum_list ws))))
       else and_then (list_get kValues k_Index) (\<lambda>kValue.
              Inr (result'(''total_k'' @ str_int kValue \<mapsto> sum_list ws)))))))"

fun stats_loop ::
  "dataframe \<Rightarrow> string \<Rightarrow> bool \<Rightarrow> string list \<Rightarrow> bool list \<Rightarrow> nat \<Rightarrow> int list \<Rightarrow> real list
   \<Rightarrow> nat list \<Rightarrow> (string \<rightharpoonup> real) \<Rightarrow> error + (string \<rightharpoonup> real)" where
  "stats_loop popLocations pop_Column multi groups proportions groupIndex kValues radius_List
     [] result = Inr result"
| "stats_loop popLocations pop_Column multi groups proportions groupIndex kValues radius_List
     (k_Index # rest) result =
     and_then (stats_step popLocations pop_Column multi groups proportions groupIndex kValues
                 radius_List k_Index result)
       (\<lambda>result'. stats_loop popLocations pop_Column multi groups proportions groupIndex kValues
                     radius_List rest result')"

text \<open>The body of \<open>for pop_Column in populations\<close>, and the loop, which advances \<open>groupIndex\<close>.\<close>

definition measure_step ::
  "dataframe \<Rightarrow> bool \<Rightarrow> string list \<Rightarrow> bool list \<Rightarrow> int list \<Rightarrow> string \<Rightarrow> nat
   \<Rightarrow> (string \<rightharpoonup> real) \<Rightarrow> error + (string \<rightharpoonup> real)" where
  "measure_step popLocations multi groups proportions kValues pop_Column groupIndex result =
     and_then (radius_loop popLocations pop_Column multi groups groupIndex kValues
                 (0, 0, [], result))
       (\<lambda>(population, index, radius_List, result').
          stats_loop popLocations pop_Column multi groups proportions groupIndex kValues
            radius_List [0..<length kValues] result')"

fun populations_loop ::
  "dataframe \<Rightarrow> bool \<Rightarrow> string list \<Rightarrow> bool list \<Rightarrow> int list \<Rightarrow> string list \<Rightarrow> nat
   \<Rightarrow> (string \<rightharpoonup> real) \<Rightarrow> error + (string \<rightharpoonup> real)" where
  "populations_loop popLocations multi groups proportions kValues [] groupIndex result = Inr result"
| "populations_loop popLocations multi groups proportions kValues (pop_Column # rest) groupIndex
     result =
     and_then (measure_step popLocations multi groups proportions kValues pop_Column groupIndex
                 result)
       (\<lambda>result'. populations_loop popLocations multi groups proportions kValues rest
                     (groupIndex + 1) result')"

section \<open>The loop over the points (lines 128 to 222)\<close>

text \<open>
  One point: the distances are written into the \<open>Distance\<close> column of the caller's frame,
  the frame is sorted in place, and the result dictionary of the point is filled. The frame
  is threaded through the loop as the state the next point starts from.
\<close>

fun points_loop ::
  "string \<Rightarrow> string \<Rightarrow> string \<Rightarrow> string \<Rightarrow> bool \<Rightarrow> string list \<Rightarrow> string list \<Rightarrow> bool list
   \<Rightarrow> int list \<Rightarrow> row list \<Rightarrow> dataframe \<Rightarrow> (int \<times> (string \<rightharpoonup> real)) list
   \<Rightarrow> (error + (int \<times> (string \<rightharpoonup> real)) list) \<times> dataframe" where
  "points_loop pointsNorth pointsEast popLocationsNorth popLocationsEast multi groups populations
     proportions kValues [] popLocations results = (Inr results, popLocations)"
| "points_loop pointsNorth pointsEast popLocationsNorth popLocationsEast multi groups populations
     proportions kValues (point # rest) popLocations results =
     (case distance_index point pointsNorth pointsEast popLocations popLocationsNorth
             popLocationsEast of
        Inl e \<Rightarrow> (Inl e, popLocations)
      | Inr popLocations' \<Rightarrow>
          (case populations_loop popLocations' multi groups proportions kValues populations 0
                  Map.empty of
             Inl e \<Rightarrow> (Inl e, popLocations')
           | Inr result \<Rightarrow>
               points_loop pointsNorth pointsEast popLocationsNorth popLocationsEast multi groups
                 populations proportions kValues rest popLocations'
                 (results @ [(label point, result)])))"

section \<open>The returned table and the finishing pass (lines 224 to 239)\<close>

text \<open>
  A cell of the returned table is a number or, after a division by zero of the finishing
  pass, one of the non-finite floats (pandas divides without raising).
\<close>

datatype cell = Num real | PosInf | NegInf | NaN

fun cell_div :: "cell \<Rightarrow> cell \<Rightarrow> cell" where
  "cell_div (Num a) (Num b) =
     (if b \<noteq> 0 then Num (a / b) else if 0 < a then PosInf else if a < 0 then NegInf else NaN)"
| "cell_div NaN y = NaN"
| "cell_div x NaN = NaN"
| "cell_div (Num a) y = Num 0"
| "cell_div PosInf (Num b) = (if b < 0 then NegInf else PosInf)"
| "cell_div NegInf (Num b) = (if b < 0 then PosInf else NegInf)"
| "cell_div PosInf PosInf = NaN"
| "cell_div PosInf NegInf = NaN"
| "cell_div NegInf PosInf = NaN"
| "cell_div NegInf NegInf = NaN"

text \<open>
  A row of the returned table: the row of the point and, beside it, the columns of its result
  dictionary (the generated column names are taken not to clash with the point's own).
\<close>

record ctxrow =
  origin :: row
  ctx :: "string \<rightharpoonup> cell"

text \<open>
  \<open>pd.concat([points, pd.DataFrame(results).set_index('pointIndex')], axis=1)\<close>: with no
  result the frame has no column \<open>pointIndex\<close> and \<open>set_index\<close> raises KeyError; otherwise
  the rows are joined on their labels, which here is position by position.
\<close>

definition concat_results :: "row list \<Rightarrow> (int \<times> (string \<rightharpoonup> real)) list \<Rightarrow> error + ctxrow list" where
  "concat_results points results =
     (if results = [] then Inl (KeyError ''pointIndex'')
      else Inr (map (\<lambda>(point, (pointIndex, result)).
                       \<lparr>origin = point, ctx = map_option Num \<circ> result\<rparr>)
                    (zip points results)))"

fun ctx_column :: "ctxrow list \<Rightarrow> string \<Rightarrow> error + cell list" where
  "ctx_column [] c = Inr []"
| "ctx_column (r # rs) c =
     (case ctx r c of
        None \<Rightarrow> Inl (KeyError c)
      | Some v \<Rightarrow> and_then (ctx_column rs c) (\<lambda>vs. Inr (v # vs)))"

text \<open>\<open>points[target] = points[num] / points[den]\<close>.\<close>

definition derive_mean :: "ctxrow list \<Rightarrow> string \<Rightarrow> string \<Rightarrow> string \<Rightarrow> error + ctxrow list" where
  "derive_mean tbl target num den =
     and_then (ctx_column tbl num) (\<lambda>ns.
     and_then (ctx_column tbl den) (\<lambda>ds.
       Inr (map (\<lambda>(r, n, d). r\<lparr>ctx := (ctx r)(target \<mapsto> cell_div n d)\<rparr>)
                (zip tbl (zip ns ds)))))"

fun finish_groups ::
  "bool \<Rightarrow> bool list \<Rightarrow> int \<Rightarrow> string list \<Rightarrow> nat \<Rightarrow> ctxrow list \<Rightarrow> error + ctxrow list" where
  "finish_groups multi proportions kValue [] groupIndex tbl = Inr tbl"
| "finish_groups multi proportions kValue (grp # groups) groupIndex tbl =
     and_then (list_get proportions groupIndex) (\<lambda>flag.
     and_then
       (if flag then
          (if multi
           then derive_mean tbl (''mean_'' @ grp @ ''_k'' @ str_int kValue)
                  (''group_'' @ grp @ ''_k'' @ str_int kValue)
                  (''total_'' @ grp @ ''_k'' @ str_int kValue)
           else derive_mean tbl (''mean_'' @ grp @ ''_k'' @ str_int kValue)
                  (''group_'' @ grp @ ''_k'' @ str_int kValue)
                  (''total_k'' @ str_int kValue))
        else Inr tbl)
       (\<lambda>tbl'. finish_groups multi proportions kValue groups (groupIndex + 1) tbl'))"

fun finishing_pass ::
  "bool \<Rightarrow> string list \<Rightarrow> bool list \<Rightarrow> int list \<Rightarrow> ctxrow list \<Rightarrow> error + ctxrow list" where
  "finishing_pass multi groups proportions [] tbl = Inr tbl"
| "finishing_pass multi groups proportions (kValue # kValues) tbl =
     and_then (finish_groups multi proportions kValue groups 0 tbl)
       (\<lambda>tbl'. finishing_pass multi groups proportions kValues tbl')"

section \<open>geocontext\<close>

text \<open>
  What a call leaves behind: the value returned or the exception raised, and the caller's
  \<open>popLocations\<close> and \<open>kValues\<close> as the call leaves them.
\<close>

record outcome =
  returned :: "error + ctxrow list"
  popLocations_after :: dataframe
  kValues_after :: "int pyarg"

definition geocontext ::
  "row list \<Rightarrow> dataframe \<Rightarrow> string pyarg \<Rightarrow> string pyarg \<Rightarrow> bool list \<Rightarrow> int pyarg
   \<Rightarrow> string \<Rightarrow> string \<Rightarrow> string \<Rightarrow> string \<Rightarrow> outcome" where
  "geocontext points popLocations groups populations proportions kValues
     pointsNorth pointsEast popLocationsNorth popLocationsEast =
     (case check_format groups populations kValues of
        Inl e \<Rightarrow>
          \<lparr>returned = Inl e, popLocations_after = popLocations, kValues_after = kValues\<rparr>
      | Inr (gs, ps, multi, ks) \<Rightarrow>
          (case points_loop pointsNorth pointsEast popLocationsNorth popLocationsEast multi gs ps
                  proportions (sort ks) points
                  (setitem popLocations ''Distance'' (replicate (length popLocations) 0)) [] of
             (res, popLocations') \<Rightarrow>
               \<lparr>returned =
                  and_then res (\<lambda>results.
                  and_then (concat_results points results) (\<lambda>tbl.
                    finishing_pass multi gs proportions (sort ks) tbl)),
                popLocations_after = popLocations',
                kValues_after = PyList (sort ks)\<rparr>))"

section \<open>Notions used in the statements\<close>

text \<open>One column of the returned table: the cell of each row under that name, if any.\<close>

definition result_column :: "outcome \<Rightarrow> string \<Rightarrow> error + cell option list" where
  "result_column out c =
     (case returned out of Inl e \<Rightarrow> Inl e | Inr tbl \<Rightarrow> Inr (map (\<lambda>r. ctx r c) tbl))"

text \<open>A row without its \<open>Distance\<close> cell: what the caller's table held in that row.\<close>

definition without_distance :: "row \<Rightarrow> row" where
  "without_distance r = r\<lparr>cells := (cells r)(''Distance'' := None)\<rparr>"

text \<open>
  The errors that the format check of lines 98 to 113 raises, and the errors that the
  computation after it can raise: a missing column, a list or positional index out of
  range, weights that sum to zero, the root of a negative number.
\<close>

definition configuration_error :: "error \<Rightarrow> bool" where
  "configuration_error e =
     (e = TypeError ''groups need to be a list with column names''
      \<or> e = TypeError ''populations need to be a column name or a list with column names''
      \<or> e = IndexError ''populations need to have the same length as groups''
      \<or> e = TypeError ''kValues need to be a list with k-values'')"

definition computation_error :: "error \<Rightarrow> bool" where
  "computation_error e =
     (case e of
        TypeError m \<Rightarrow> False
      | IndexError m \<Rightarrow>
          m = ''list index out of range'' \<or> m = ''single positional indexer is out-of-bounds''
      | KeyError c \<Rightarrow> True
      | ZeroDivisionError m \<Rightarrow> True
      | ValueError m \<Rightarrow> True)"

text \<open>
  Whether the radius key can be written: in multi-population mode the group name is read
  at \<open>groupIndex\<close>.
\<close>

definition store_ok :: "bool \<Rightarrow> string list \<Rightarrow> nat \<Rightarrow> bool" where
  "store_ok multi groups groupIndex = (if multi then groupIndex < length groups else True)"

section \<open>Example tables\<close>

text \<open>A row with the given label and cells, for the concrete calls evaluated below.\<close>

definition table_row :: "int \<Rightarrow> (string \<times> real) list \<Rightarrow> row" where
  "table_row l cs = \<lparr>label = l, cells = map_of cs\<rparr>"

text \<open>
  The scenario of the specification: reference locations at the distances 0, 5 and 10 from
  the point, with the populations 2, 3 and 5, a group of counts \<open>G\<close> and a group of
  per-capita values \<open>H\<close>.
\<close>

definition scenario_point :: row where
  "scenario_point = table_row 0 [(''North'', 0), (''East'', 0)]"

definition scenario_locations :: dataframe where
  "scenario_locations =
     [table_row 0 [(''North'', 0), (''East'', 0), (''Pop'', 2), (''G'', 1), (''H'', 4)],
      table_row 1 [(''North'', 3), (''East'', 4), (''Pop'', 3), (''G'', 1), (''H'', 2)],
      table_row 2 [(''North'', 6), (''East'', 8), (''Pop'', 5), (''G'', 2), (''H'', 6)]]"

text \<open>The scenario's table as the point's step leaves it: annotated and in ascending order.\<close>

definition scenario_sorted :: dataframe where
  "scenario_sorted =
     [table_row 0 [(''Distance'', 0), (''North'', 0), (''East'', 0), (''Pop'', 2), (''G'', 1),
                   (''H'', 4)],
      table_row 1 [(''Distance'', 5), (''North'', 3), (''East'', 4), (''Pop'', 3), (''G'', 1),
                   (''H'', 2)],
      table_row 2 [(''Distance'', 10), (''North'', 6), (''East'', 8), (''Pop'', 5), (''G'', 2),
                   (''H'', 6)]]"


text \<open>
  Two reference locations on a line, and two points: the first at the second location, the
  second half way between the two.
\<close>

definition pair_locations :: dataframe where
  "pair_locations =
     [table_row 0 [(''North'', 0), (''East'', 0), (''Pop'', 1), (''G'', 1)],
      table_row 1 [(''North'', 10), (''East'', 0), (''Pop'', 1), (''G'', 0)]]"

definition pair_points :: "row list" where
  "pair_points =
     [table_row 0 [(''North'', 10), (''East'', 0)], table_row 1 [(''North'', 5), (''East'', 0)]]"

section \<open>Basic facts\<close>

lemma and_then_Inl [simp]: "and_then (Inl e) f = Inl e"
  by (simp add: and_then_def)

lemma and_then_Inr [simp]: "and_then (Inr v) f = f v"
  by (simp add: and_then_def)

lemma and_then_eq_Inr: "and_then m f = Inr y \<longleftrightarrow> (\<exists>v. m = Inr v \<and> f v = Inr y)"
  by (cases m) simp_all

lemma and_then_eq_Inl:
  "and_then m f = Inl e \<longleftrightarrow> m = Inl e \<or> (\<exists>v. m = Inr v \<and> f v = Inl e)"
  by (cases m) simp_all

declare while_walk.simps [simp del]

declare str_nat.simps [simp del]

lemma column_length: "column df c = Inr xs \<Longrightarrow> length xs = length df"
  by (induction df arbitrary: xs) (auto simp: and_then_eq_Inr)

lemma sqrt_25: "sqrt 25 = 5"
  by (rule real_sqrt_unique) auto

lemma sqrt_100: "sqrt 100 = 10"
  by (rule real_sqrt_unique) auto

lemmas evaluate =
  geocontext_def check_format_def is_list_def items_def distance_index_def distances_def
  getitem_def astype_int_def setitem_def sort_values_def table_row_def
  measure_step_def while_walk.simps iloc_def str_int_def str_nat.simps stats_step_def
  list_get_def selection_within_def aggregate_def weighted_def np_average_def math_sqrt_def
  concat_results_def derive_mean_def result_column_def

section \<open>The threshold walk\<close>

lemma iloc_nonneg:
  "0 \<le> i \<Longrightarrow>
   iloc xs i = (if i < int (length xs) then Inr (xs ! nat i)
                else Inl (IndexError ''single positional indexer is out-of-bounds''))"
  by (simp add: iloc_def Let_def)

lemma take_nat_Suc_sum:
  assumes "0 \<le> i" "i < int (length pops)"
  shows "sum_list (take (nat (i + 1)) pops) = sum_list (take (nat i) pops) + (pops ! nat i :: real)"
proof -
  have "nat (i + 1) = Suc (nat i)" using assms by simp
  moreover have "nat i < length pops" using assms by simp
  ultimately show ?thesis by (simp add: take_Suc_conv_app_nth)
qed

lemma while_walk_Inr:
  assumes "while_walk pcol k acc i = Inr (acc', i')" "pcol = Inr pops"
    and "0 \<le> i" "i \<le> int (length pops)" "acc = sum_list (take (nat i) pops)"
  shows "i \<le> i' \<and> i' \<le> int (length pops) \<and> acc' = sum_list (take (nat i') pops)
         \<and> real_of_int k \<le> acc'
         \<and> (\<forall>m. nat i \<le> m \<and> m < nat i' \<longrightarrow> sum_list (take m pops) < real_of_int k)"
  using assms
proof (induction pcol k acc i rule: while_walk.induct)
  case (1 pcol kValue population index)
  show ?case
  proof (cases "population < real_of_int kValue")
    case False
    with "1.prems"(1)[unfolded while_walk.simps[of pcol kValue population index]]
    have "acc' = population" "i' = index" by simp_all
    with False "1.prems"(3,4,5) show ?thesis by simp
  next
    case True
    from True "1.prems"(2) "1.prems"(1)[unfolded while_walk.simps[of pcol kValue population index]]
    obtain p where p: "iloc pops index = Inr p"
      and rec: "while_walk pcol kValue (population + p) (index + 1) = Inr (acc', i')"
      by (auto split: sum.splits)
    from p "1.prems"(3) have lt: "index < int (length pops)" and pv: "p = pops ! nat index"
      by (auto simp: iloc_nonneg split: if_splits)
    have s: "population + p = sum_list (take (nat (index + 1)) pops)"
      using take_nat_Suc_sum[OF "1.prems"(3) lt] "1.prems"(5) pv by simp
    have ih: "index + 1 \<le> i' \<and> i' \<le> int (length pops) \<and> acc' = sum_list (take (nat i') pops)
         \<and> real_of_int kValue \<le> acc'
         \<and> (\<forall>m. nat (index + 1) \<le> m \<and> m < nat i' \<longrightarrow> sum_list (take m pops) < real_of_int kValue)"
      using "1.IH"[OF True "1.prems"(2) p rec "1.prems"(2) _ _ s] "1.prems"(3) lt by simp
    have "sum_list (take m pops) < real_of_int kValue" if "nat index \<le> m" "m < nat i'" for m
    proof (cases "m = nat index")
      case True
      then show ?thesis using \<open>population < real_of_int kValue\<close> "1.prems"(5) by simp
    next
      case False
      with that "1.prems"(3) have "nat (index + 1) \<le> m" by linarith
      with ih that show ?thesis by blast
    qed
    with ih show ?thesis by auto
  qed
qed

lemma while_walk_Inl:
  assumes "while_walk pcol k acc i = Inl e" "pcol = Inr pops"
    and "0 \<le> i" "i \<le> int (length pops)" "acc = sum_list (take (nat i) pops)"
  shows "e = IndexError ''single positional indexer is out-of-bounds''
         \<and> (\<forall>m. nat i \<le> m \<and> m \<le> length pops \<longrightarrow> sum_list (take m pops) < real_of_int k)"
  using assms
proof (induction pcol k acc i rule: while_walk.induct)
  case (1 pcol kValue population index)
  note unf = "1.prems"(1)[unfolded while_walk.simps[of pcol kValue population index]]
  have lt: "population < real_of_int kValue"
    using unf by (auto split: if_splits)
  show ?case
  proof (cases "index < int (length pops)")
    case False
    with "1.prems" have eq: "nat index = length pops" by simp
    from False "1.prems"(2,3) lt unf have "e = IndexError ''single positional indexer is out-of-bounds''"
      by (auto simp: iloc_nonneg split: if_splits)
    moreover have "sum_list (take m pops) < real_of_int kValue" if "nat index \<le> m" "m \<le> length pops" for m
      using that eq lt "1.prems"(5) by simp
    ultimately show ?thesis by blast
  next
    case True
    then have p: "iloc pops index = Inr (pops ! nat index)"
      using "1.prems"(3) by (simp add: iloc_nonneg)
    with lt "1.prems"(2) unf have rec: "while_walk pcol kValue (population + pops ! nat index) (index + 1) = Inl e"
      by simp
    have s: "population + pops ! nat index = sum_list (take (nat (index + 1)) pops)"
      using take_nat_Suc_sum[OF "1.prems"(3) True] "1.prems"(5) by simp
    have ih: "e = IndexError ''single positional indexer is out-of-bounds''
         \<and> (\<forall>m. nat (index + 1) \<le> m \<and> m \<le> length pops \<longrightarrow> sum_list (take m pops) < real_of_int kValue)"
      using "1.IH"[OF lt "1.prems"(2) p rec "1.prems"(2) _ _ s] "1.prems"(3) True by simp
    have "sum_list (take m pops) < real_of_int kValue" if "nat index \<le> m" "m \<le> length pops" for m
    proof (cases "m = nat index")
      case True
      then show ?thesis using lt "1.prems"(5) by simp
    next
      case False
      with that "1.prems"(3) have "nat (index + 1) \<le> m" by linarith
      with ih that show ?thesis by blast
    qed
    with ih show ?thesis by blast
  qed
qed


text \<open>The radius read at \<open>index - 1\<close> after a walk that stopped at \<open>index\<close>.\<close>

lemma iloc_pred_Inr:
  assumes "0 \<le> i" "i \<le> int (length ds)" "ds \<noteq> []"
  shows "\<exists>r. iloc ds (i - 1) = Inr r \<and> r \<in> set ds"
proof (cases "i = 0")
  case True
  from assms(3) obtain xs x where "ds = xs @ [x]" by (cases ds rule: rev_cases) auto
  with True show ?thesis by (simp add: iloc_def Let_def)
next
  case False
  then have "iloc ds (i - 1) = Inr (ds ! nat (i - 1))" "nat (i - 1) < length ds"
    using assms by (simp_all add: iloc_def Let_def)
  then show ?thesis by simp
qed

lemma iloc_pred_Inl:
  assumes "0 \<le> i" "i \<le> int (length ds)" "iloc ds (i - 1) = Inl e"
  shows "ds = []"
  using iloc_pred_Inr[OF assms(1,2)] assms(3) by (cases "ds = []") auto

lemma radius_loop_Inr:
  assumes "radius_loop df pc multi groups gi ks (acc, i, rl, res) = Inr (acc', i', rl', res')"
    and "column df pc = Inr pops" "column df ''Distance'' = Inr dists"
    and "0 \<le> i" "i \<le> int (length pops)" "acc = sum_list (take (nat i) pops)"
    and "sorted ks" "\<forall>k\<in>set ks. \<forall>m<nat i. sum_list (take m pops) < real_of_int k"
  shows "\<exists>rs. rl' = rl @ rs
           \<and> list_all2 (\<lambda>k r. \<exists>n\<le>length pops. real_of_int k \<le> sum_list (take n pops)
                    \<and> (\<forall>m<n. sum_list (take m pops) < real_of_int k)
                    \<and> iloc dists (int n - 1) = Inr r) ks rs
           \<and> 0 \<le> i' \<and> i' \<le> int (length pops) \<and> acc' = sum_list (take (nat i') pops)"
  using assms
proof (induction ks arbitrary: acc i rl res)
  case Nil
  then show ?case by auto
next
  case (Cons k ks)
  from Cons.prems(1,2,3) obtain a1 i1 r res1 where
    w: "while_walk (Inr pops) k acc i = Inr (a1, i1)"
    and r: "iloc dists (i1 - 1) = Inr r"
    and rec: "radius_loop df pc multi groups gi ks (a1, i1, rl @ [r], res1) = Inr (acc', i', rl', res')"
    by (auto simp: and_then_eq_Inr)
  from while_walk_Inr[OF w refl Cons.prems(4,5,6)]
  have w1: "i \<le> i1" "i1 \<le> int (length pops)" "a1 = sum_list (take (nat i1) pops)"
    "real_of_int k \<le> a1"
    and w2: "\<forall>m. nat i \<le> m \<and> m < nat i1 \<longrightarrow> sum_list (take m pops) < real_of_int k"
    by auto
  have i1: "0 \<le> i1" using w1(1) Cons.prems(4) by simp
  have below: "sum_list (take m pops) < real_of_int k" if "m < nat i1" for m
    using that w2 Cons.prems(8) by (cases "m < nat i") auto
  have "\<forall>k'\<in>set ks. \<forall>m<nat i1. sum_list (take m pops) < real_of_int k'"
  proof (intro ballI allI impI)
    fix k' m assume "k' \<in> set ks" "m < nat i1"
    then have "k \<le> k'" using Cons.prems(7) by simp
    with below[OF \<open>m < nat i1\<close>] show "sum_list (take m pops) < real_of_int k'" by simp
  qed
  from Cons.IH[OF rec Cons.prems(2,3) i1 w1(2,3) _ this] Cons.prems(7)
  obtain rs where rs: "rl' = (rl @ [r]) @ rs"
    "list_all2 (\<lambda>k r. \<exists>n\<le>length pops. real_of_int k \<le> sum_list (take n pops)
                    \<and> (\<forall>m<n. sum_list (take m pops) < real_of_int k)
                    \<and> iloc dists (int n - 1) = Inr r) ks rs"
    "0 \<le> i'" "i' \<le> int (length pops)" "acc' = sum_list (take (nat i') pops)"
    by auto
  have "\<exists>n\<le>length pops. real_of_int k \<le> sum_list (take n pops)
                    \<and> (\<forall>m<n. sum_list (take m pops) < real_of_int k)
                    \<and> iloc dists (int n - 1) = Inr r"
    using w1 i1 below r by (intro exI[of _ "nat i1"]) simp
  with rs show ?case
    by (intro exI[of _ "r # rs"]) simp
qed

lemma radius_loop_Inl:
  assumes "radius_loop df pc multi groups gi ks (acc, i, rl, res) = Inl e"
    and "column df pc = Inr pops" "column df ''Distance'' = Inr dists"
    and "0 \<le> i" "i \<le> int (length pops)" "acc = sum_list (take (nat i) pops)"
    and "sorted ks" "\<forall>k\<in>set ks. \<forall>m<nat i. sum_list (take m pops) < real_of_int k"
    and "store_ok multi groups gi"
  shows "pops = [] \<or> (\<exists>k\<in>set ks. \<forall>n\<le>length pops. sum_list (take n pops) < real_of_int k)"
  using assms
proof (induction ks arbitrary: acc i rl res)
  case Nil
  then show ?case by simp
next
  case (Cons k ks)
  have len: "length dists = length pops"
    using Cons.prems(2,3) by (simp add: column_length)
  show ?case
  proof (cases "while_walk (Inr pops) k acc i")
    case (Inl e')
    from while_walk_Inl[OF Inl refl Cons.prems(4,5,6)] Cons.prems(8)
    have "\<forall>n\<le>length pops. sum_list (take n pops) < real_of_int k"
      by (metis list.set_intros(1) not_le_imp_less)
    then show ?thesis by auto
  next
    case (Inr st)
    obtain a1 i1 where st: "st = (a1, i1)" by (cases st)
    from while_walk_Inr[OF Inr[unfolded st] refl Cons.prems(4,5,6)]
    have w1: "i \<le> i1" "i1 \<le> int (length pops)" "a1 = sum_list (take (nat i1) pops)"
      "real_of_int k \<le> a1"
      and w2: "\<forall>m. nat i \<le> m \<and> m < nat i1 \<longrightarrow> sum_list (take m pops) < real_of_int k"
      by auto
    have i1: "0 \<le> i1" using w1(1) Cons.prems(4) by simp
    show ?thesis
    proof (cases "iloc dists (i1 - 1)")
      case (Inl e')
      from iloc_pred_Inl[OF i1 _ Inl] w1(2) len have "pops = []" by simp
      then show ?thesis by simp
    next
      case r: (Inr r)
      obtain res1 where store: "(if multi
        then and_then (list_get groups gi)
               (\<lambda>g. Inr (res(''radius_'' @ g @ ''_k'' @ str_int k \<mapsto> r)))
        else Inr (res(''radius_k'' @ str_int k \<mapsto> r))) = Inr res1"
        using Cons.prems(9) by (cases multi) (auto simp: store_ok_def list_get_def)
      from Cons.prems(1,2,3) Inr st r store
      have rec: "radius_loop df pc multi groups gi ks (a1, i1, rl @ [r], res1) = Inl e"
        by simp
      have below: "sum_list (take m pops) < real_of_int k" if "m < nat i1" for m
        using that w2 Cons.prems(8) by (cases "m < nat i") auto
      have "\<forall>k'\<in>set ks. \<forall>m<nat i1. sum_list (take m pops) < real_of_int k'"
      proof (intro ballI allI impI)
        fix k' m assume "k' \<in> set ks" "m < nat i1"
        then have "k \<le> k'" using Cons.prems(7) by simp
        with below[OF \<open>m < nat i1\<close>] show "sum_list (take m pops) < real_of_int k'" by simp
      qed
      from Cons.IH[OF rec Cons.prems(2,3) i1 w1(2,3) _ this Cons.prems(9)] Cons.prems(7)
      show ?thesis by auto
    qed
  qed
qed

section \<open>C1: the proportion flag of each group\<close>

text \<open>
  C1 fails on the code in single-population mode. The loop over the groups reads the flag at
  \<open>groupIndex\<close>, which stays 0 while the one population column is processed, so every
  group is aggregated by the flag of the first group; the finishing pass reads the flag of
  each group. In the scenario with the groups \<open>G\<close>, \<open>H\<close> and the flags true, false, the
  group \<open>H\<close> gets the sum 6 and neither a mean nor a standard deviation; with the flags
  false, true the finishing pass looks for the sum of \<open>H\<close> and raises KeyError. In
  multi-population mode, with the same population column named for each group, the flag of
  \<open>H\<close> is followed and its weighted mean 14/5 is stored.
\<close>

theorem single_mode_uses_first_flag:
  "result_column (geocontext [scenario_point] scenario_locations (PyList [''G'', ''H''])
       (PyList [''Pop'']) [True, False] (PyList [4]) ''North'' ''East'' ''North'' ''East'')
       ''group_H_k4'' = Inr [Some (Num 6)]
   \<and> result_column (geocontext [scenario_point] scenario_locations (PyList [''G'', ''H''])
       (PyList [''Pop'']) [True, False] (PyList [4]) ''North'' ''East'' ''North'' ''East'')
       ''mean_H_k4'' = Inr [None]
   \<and> result_column (geocontext [scenario_point] scenario_locations (PyList [''G'', ''H''])
       (PyList [''Pop'']) [True, False] (PyList [4]) ''North'' ''East'' ''North'' ''East'')
       ''std_H_k4'' = Inr [None]
   \<and> returned (geocontext [scenario_point] scenario_locations (PyList [''G'', ''H''])
       (PyList [''Pop'']) [False, True] (PyList [4]) ''North'' ''East'' ''North'' ''East'')
     = Inl (KeyError ''group_H_k4'')
   \<and> result_column (geocontext [scenario_point] scenario_locations (PyList [''G'', ''H''])
       (PyList [''Pop'', ''Pop'']) [True, False] (PyList [4]) ''North'' ''East'' ''North'' ''East'')
       ''mean_H_k4'' = Inr [Some (Num (14 / 5))]
   \<and> result_column (geocontext [scenario_point] scenario_locations (PyList [''G'', ''H''])
       (PyList [''Pop'', ''Pop'']) [True, False] (PyList [4]) ''North'' ''East'' ''North'' ''East'')
       ''group_H_k4'' = Inr [None]"
  by (simp add: evaluate scenario_point_def scenario_locations_def sqrt_25 sqrt_100 power_divide)

section \<open>C2: the threshold walk of the radius solver\<close>

lemma scenario_distance_index:
  "distance_index scenario_point ''North'' ''East''
     (setitem scenario_locations ''Distance'' (replicate (length scenario_locations) 0))
     ''North'' ''East''
     = Inr scenario_sorted"
  by (simp add: distance_index_def distances_def scenario_point_def scenario_locations_def
        scenario_sorted_def getitem_def astype_int_def setitem_def sort_values_def table_row_def
        sqrt_25 sqrt_100)

lemma scenario_columns:
  "column scenario_sorted ''Pop'' = Inr [2, 3, 5]"
  "column scenario_sorted ''Distance'' = Inr [0, 5, 10]"
  by (simp_all add: scenario_sorted_def getitem_def table_row_def)

lemma scenario_radius_loop:
  "radius_loop scenario_sorted ''Pop'' False [''G''] 0 [4] (0, 0, [], Map.empty)
     = Inr (5, 2, [5], [''radius_k4'' \<mapsto> 5])"
  by (simp add: scenario_columns while_walk.simps iloc_def str_int_def str_nat.simps)

lemma scenario_selection:
  "selection_within scenario_sorted 5 = Inr (take 2 scenario_sorted)"
  by (simp add: selection_within_def scenario_columns) (simp add: scenario_sorted_def)

lemma scenario_geocontext:
  "result_column (geocontext [scenario_point] scenario_locations (PyList [''G''])
       (PyList [''Pop'']) [True] (PyList [4]) ''North'' ''East'' ''North'' ''East'') ''radius_k4''
     = Inr [Some (Num 5)]"
  "result_column (geocontext [scenario_point] scenario_locations (PyList [''G''])
       (PyList [''Pop'']) [True] (PyList [4]) ''North'' ''East'' ''North'' ''East'') ''total_k4''
     = Inr [Some (Num 5)]"
  by (simp_all add: evaluate scenario_point_def scenario_locations_def sqrt_25 sqrt_100)

text \<open>
  C2: from the accumulator 0 and the position 0, over the ascending k-values, the loop
  returns radii exactly when every k is reached by some prefix of the population column
  (and the table is not empty); the radius of each k is then the distance at position
  \<open>n - 1\<close>, where \<open>n\<close> is the least number of leading locations, in the table's order,
  whose populations sum to at least k, and the accumulator is the sum of the populations
  consumed. Otherwise it raises. In the scenario with the distances 0, 5, 10, the populations
  2, 3, 5 and k = 4 the walk stops at position 2 with the accumulator 5, the radius is 5,
  the selection is the first two locations and the total recorded is 5.
\<close>

theorem radius_solver_threshold_walk:
  "(column popLocations pop_Column = Inr pops \<and> column popLocations ''Distance'' = Inr dists
     \<and> sorted kValues \<and> store_ok multi groups groupIndex \<longrightarrow>
    (case radius_loop popLocations pop_Column multi groups groupIndex kValues (0, 0, [], result) of
       Inl e \<Rightarrow>
         pops = [] \<or> (\<exists>k\<in>set kValues. \<forall>n\<le>length pops. sum_list (take n pops) < real_of_int k)
     | Inr (population, index, radius_List, result') \<Rightarrow>
         list_all2 (\<lambda>k radius. \<exists>n\<le>length pops. real_of_int k \<le> sum_list (take n pops)
                      \<and> (\<forall>m<n. sum_list (take m pops) < real_of_int k)
                      \<and> iloc dists (int n - 1) = Inr radius) kValues radius_List
         \<and> population = sum_list (take (nat index) pops)))
   \<and> distance_index scenario_point ''North'' ''East''
       (setitem scenario_locations ''Distance'' (replicate (length scenario_locations) 0))
       ''North'' ''East''
       = Inr scenario_sorted
   \<and> radius_loop scenario_sorted ''Pop'' False [''G''] 0 [4] (0, 0, [], Map.empty)
       = Inr (5, 2, [5], [''radius_k4'' \<mapsto> 5])
   \<and> selection_within scenario_sorted 5 = Inr (take 2 scenario_sorted)
   \<and> result_column (geocontext [scenario_point] scenario_locations (PyList [''G''])
       (PyList [''Pop'']) [True] (PyList [4]) ''North'' ''East'' ''North'' ''East'') ''radius_k4''
       = Inr [Some (Num 5)]
   \<and> result_column (geocontext [scenario_point] scenario_locations (PyList [''G''])
       (PyList [''Pop'']) [True] (PyList [4]) ''North'' ''East'' ''North'' ''East'') ''total_k4''
       = Inr [Some (Num 5)]"
proof -
  have "case radius_loop popLocations pop_Column multi groups groupIndex kValues (0, 0, [], result) of
       Inl e \<Rightarrow>
         pops = [] \<or> (\<exists>k\<in>set kValues. \<forall>n\<le>length pops. sum_list (take n pops) < real_of_int k)
     | Inr (population, index, radius_List, result') \<Rightarrow>
         list_all2 (\<lambda>k radius. \<exists>n\<le>length pops. real_of_int k \<le> sum_list (take n pops)
                      \<and> (\<forall>m<n. sum_list (take m pops) < real_of_int k)
                      \<and> iloc dists (int n - 1) = Inr radius) kValues radius_List
         \<and> population = sum_list (take (nat index) pops)"
    if h: "column popLocations pop_Column = Inr pops" "column popLocations ''Distance'' = Inr dists"
      "sorted kValues" "store_ok multi groups groupIndex"
  proof (cases "radius_loop popLocations pop_Column multi groups groupIndex kValues (0, 0, [], result)")
    case (Inl e)
    from radius_loop_Inl[OF Inl h(1,2) _ _ _ h(3) _ h(4)] Inl show ?thesis by simp
  next
    case (Inr st)
    obtain population index radius_List result' where st: "st = (population, index, radius_List, result')"
      by (cases st)
    from radius_loop_Inr[OF Inr[unfolded st] h(1,2) _ _ _ h(3)] Inr st show ?thesis by auto
  qed
  then show ?thesis
    using scenario_distance_index scenario_radius_loop scenario_selection scenario_geocontext
    by blast
qed

theorem radius_solver_threshold_walk_witness:
  "column scenario_sorted ''Pop'' = Inr [2, 3, 5]
   \<and> column scenario_sorted ''Distance'' = Inr [0, 5, 10]
   \<and> sorted [4 :: int] \<and> store_ok False [''G''] 0
   \<and> list_all2 (\<lambda>k radius. \<exists>n\<le>length [2, 3, 5 :: real].
                      real_of_int k \<le> sum_list (take n [2, 3, 5])
                      \<and> (\<forall>m<n. sum_list (take m [2, 3, 5]) < real_of_int k)
                      \<and> iloc [0, 5, 10] (int n - 1) = Inr radius) [4] [5 :: real]"
proof -
  have c: "column scenario_sorted ''Pop'' = Inr [2, 3, 5]
     \<and> column scenario_sorted ''Distance'' = Inr [0, 5, 10]
     \<and> sorted [4 :: int] \<and> store_ok False [''G''] 0"
    by (simp add: scenario_columns store_ok_def)
  with radius_solver_threshold_walk [of scenario_sorted "''Pop''" "[2, 3, 5]" "[0, 5, 10]"
      "[4]" False "[''G'']" 0 Map.empty]
  have "case radius_loop scenario_sorted ''Pop'' False [''G''] 0 [4] (0, 0, [], Map.empty) of
       Inl e \<Rightarrow>
         [2, 3, 5 :: real] = []
         \<or> (\<exists>k\<in>set [4]. \<forall>n\<le>length [2, 3, 5 :: real].
                sum_list (take n [2, 3, 5]) < real_of_int k)
     | Inr (population, index, radius_List, result') \<Rightarrow>
         list_all2 (\<lambda>k radius. \<exists>n\<le>length [2, 3, 5 :: real].
                      real_of_int k \<le> sum_list (take n [2, 3, 5])
                      \<and> (\<forall>m<n. sum_list (take m [2, 3, 5]) < real_of_int k)
                      \<and> iloc [0, 5, 10] (int n - 1) = Inr radius) [4] radius_List
         \<and> population = sum_list (take (nat index) [2, 3, 5])"
    by blast
  then have "list_all2 (\<lambda>k radius. \<exists>n\<le>length [2, 3, 5 :: real].
                      real_of_int k \<le> sum_list (take n [2, 3, 5])
                      \<and> (\<forall>m<n. sum_list (take m [2, 3, 5]) < real_of_int k)
                      \<and> iloc [0, 5, 10] (int n - 1) = Inr radius) [4] [5 :: real]"
    unfolding scenario_radius_loop by simp
  with c show ?thesis by blast
qed

section \<open>C3: monotone radii\<close>

lemma iloc_Inr_mem: "iloc xs i = Inr x \<Longrightarrow> x \<in> set xs"
  by (auto simp: iloc_def Let_def split: if_splits)

lemma iloc_minus_one: "xs \<noteq> [] \<Longrightarrow> iloc xs (- 1) = Inr (last xs)"
  by (cases xs rule: rev_cases) (simp_all add: iloc_def Let_def)

lemma sorted_le_last:
  assumes "sorted xs" "x \<in> set xs"
  shows "x \<le> last xs"
proof -
  from assms(2) obtain i where i: "i < length xs" "xs ! i = x" by (auto simp: in_set_conv_nth)
  then have "xs ! i \<le> xs ! (length xs - 1)"
    using assms(1) by (intro sorted_nth_mono) auto
  moreover have "xs \<noteq> []" using assms(2) by auto
  ultimately show ?thesis using i by (simp add: last_conv_nth)
qed

lemma sorted_last_Max:
  assumes "sorted xs" "xs \<noteq> []"
  shows "last xs = Max (set xs)"
  using assms sorted_le_last[OF assms(1)] by (intro Max_eqI[symmetric]) auto

text \<open>
  For positive k-values the radii of a measure are non-decreasing: the position never moves
  back and the distances are in ascending order.
\<close>

lemma radii_monotone_for_positive_thresholds:
  assumes cols: "column df pc = Inr pops" "column df ''Distance'' = Inr dists"
    and sd: "sorted dists" and sk: "sorted ks" and pos: "\<forall>k\<in>set ks. 0 < k"
    and run: "radius_loop df pc multi groups gi ks (0, 0, [], res) = Inr (p, i, rl, res')"
  shows "sorted rl"
proof -
  have len: "length dists = length pops"
    using cols by (simp add: column_length)
  from radius_loop_Inr[OF run cols _ _ _ sk]
  have la: "list_all2 (\<lambda>k r. \<exists>n\<le>length pops. real_of_int k \<le> sum_list (take n pops)
                    \<and> (\<forall>m<n. sum_list (take m pops) < real_of_int k)
                    \<and> iloc dists (int n - 1) = Inr r) ks rl"
    by simp
  then have ll: "length ks = length rl" by (rule list_all2_lengthD)
  have "rl ! a \<le> rl ! b" if ab: "a \<le> b" "b < length rl" for a b
  proof -
    from list_all2_nthD2[OF la] ab obtain na where
      na: "na \<le> length pops" "real_of_int (ks ! a) \<le> sum_list (take na pops)"
      "\<forall>m<na. sum_list (take m pops) < real_of_int (ks ! a)"
      "iloc dists (int na - 1) = Inr (rl ! a)"
      by (metis order_le_less_trans)
    from list_all2_nthD2[OF la ab(2)] obtain nb where
      nb: "nb \<le> length pops" "real_of_int (ks ! b) \<le> sum_list (take nb pops)"
      "\<forall>m<nb. sum_list (take m pops) < real_of_int (ks ! b)"
      "iloc dists (int nb - 1) = Inr (rl ! b)"
      by blast
    have kab: "ks ! a \<le> ks ! b"
      using sk ab ll by (simp add: sorted_nth_mono)
    have "0 < ks ! a" using pos ab ll by simp
    with na(2) have na0: "0 < na" by (cases na) auto
    have le: "na \<le> nb"
    proof (rule ccontr)
      assume "\<not> na \<le> nb"
      then have "sum_list (take nb pops) < real_of_int (ks ! a)" using na(3) by simp
      with kab nb(2) show False by simp
    qed
    from na0 na(1,4) len have ra: "rl ! a = dists ! (na - 1)"
      by (auto simp: iloc_def Let_def nat_diff_distrib' split: if_splits)
    from na0 le nb(1,4) len have rb: "rl ! b = dists ! (nb - 1)"
      by (auto simp: iloc_def Let_def nat_diff_distrib' split: if_splits)
    have "dists ! (na - 1) \<le> dists ! (nb - 1)"
      using sd le na0 nb(1) len by (intro sorted_nth_mono) auto
    with ra rb show ?thesis by simp
  qed
  then show ?thesis by (simp add: sorted_iff_nth_mono)
qed


text \<open>
  C3 fails on the code for a k-value that is not positive: the walk stays at position 0 and
  the radius is read at position \<open>-1\<close>, the last row. With the k-values supplied as
  \<open>[3, 0]\<close> in the scenario, the radius of k = 0 is 10 and the radius of k = 3 is 5.
\<close>

theorem radii_decrease_after_nonpositive_threshold:
  "result_column (geocontext [scenario_point] scenario_locations (PyList [''G''])
       (PyList [''Pop'']) [True] (PyList [3, 0]) ''North'' ''East'' ''North'' ''East'') ''radius_k0''
     = Inr [Some (Num 10)]
   \<and> result_column (geocontext [scenario_point] scenario_locations (PyList [''G''])
       (PyList [''Pop'']) [True] (PyList [3, 0]) ''North'' ''East'' ''North'' ''East'') ''radius_k3''
     = Inr [Some (Num 5)]"
  by (simp add: evaluate scenario_point_def scenario_locations_def sqrt_25 sqrt_100)

section \<open>C4: the selection is a predicate over the distances\<close>

lemma column_Inr_map:
  "column df c = Inr xs \<Longrightarrow> xs = map (\<lambda>r. the (cells r c)) df \<and> (\<forall>r\<in>set df. cells r c = Some (the (cells r c)))"
  by (induction df arbitrary: xs) (auto simp: and_then_eq_Inr getitem_def split: option.splits)






section \<open>The reference table through the loop over the points\<close>

lemma distances_Inr:
  assumes "distances point pointsNorth pointsEast popLocations popLocationsNorth popLocationsEast = Inr ds"
  shows "\<exists>pn pe lns les. getitem point pointsNorth = Inr pn \<and> getitem point pointsEast = Inr pe
    \<and> column popLocations popLocationsNorth = Inr lns \<and> column popLocations popLocationsEast = Inr les
    \<and> ds = map (\<lambda>(ln, le). real_of_int (astype_int (sqrt ((pn - ln)\<^sup>2 + (pe - le)\<^sup>2)))) (zip lns les)"
  using assms by (auto simp: distances_def and_then_eq_Inr)

lemma distances_length:
  assumes "distances point pointsNorth pointsEast popLocations popLocationsNorth popLocationsEast = Inr ds"
  shows "length ds = length popLocations"
  using distances_Inr[OF assms] by (auto simp: column_length)

lemma without_distance_setitem:
  "length df \<le> length ds \<Longrightarrow> map without_distance (setitem df ''Distance'' ds) = map without_distance df"
proof (induction df arbitrary: ds)
  case Nil
  then show ?case by (simp add: setitem_def)
next
  case (Cons r df)
  then obtain d ds' where "ds = d # ds'" by (cases ds) auto
  with Cons show ?case by (simp add: setitem_def without_distance_def)
qed

lemma setitem_has_column:
  "r \<in> set (setitem df c ds) \<Longrightarrow> cells r c \<noteq> None"
  by (auto simp: setitem_def dest!: set_zip_leftD in_set_zipE)

lemma mset_sort_values: "mset (sort_values df) = mset df"
  by (simp add: sort_values_def)

lemma set_sort_values: "set (sort_values df) = set df"
  by (simp add: sort_values_def)

lemma sorted_sort_values: "sorted (map (\<lambda>r. the (cells r ''Distance'')) (sort_values df))"
  by (simp add: sort_values_def)

lemma distance_index_table:
  assumes "distance_index point pointsNorth pointsEast popLocations popLocationsNorth popLocationsEast = Inr df'"
  shows "mset (map without_distance df') = mset (map without_distance popLocations)
    \<and> (\<forall>r\<in>set df'. cells r ''Distance'' \<noteq> None)"
proof -
  from assms obtain ds where ds: "distances point pointsNorth pointsEast popLocations popLocationsNorth popLocationsEast = Inr ds"
    and df': "df' = sort_values (setitem popLocations ''Distance'' ds)"
    by (auto simp: distance_index_def and_then_eq_Inr)
  have "mset (map without_distance df') = image_mset without_distance (mset (setitem popLocations ''Distance'' ds))"
    by (simp add: df' mset_sort_values)
  also have "\<dots> = mset (map without_distance (setitem popLocations ''Distance'' ds))" by simp
  also have "\<dots> = mset (map without_distance popLocations)"
    using distances_length[OF ds] by (simp add: without_distance_setitem)
  finally show ?thesis
    by (auto simp: df' set_sort_values dest: setitem_has_column)
qed



lemma pair_after_both_points:
  "popLocations_after (geocontext pair_points pair_locations (PyList [''G''])
       (PyList [''Pop'']) [True] (PyList [1]) ''North'' ''East'' ''North'' ''East'')
     = [table_row 1 [(''Distance'', 5), (''North'', 10), (''East'', 0), (''Pop'', 1), (''G'', 0)],
        table_row 0 [(''Distance'', 5), (''North'', 0), (''East'', 0), (''Pop'', 1), (''G'', 1)]]"
  by (simp add: evaluate pair_points_def pair_locations_def sqrt_100 sqrt_25)

section \<open>C5: the distances and the ascending order\<close>

lemma astype_int_sqrt: "0 \<le> x \<Longrightarrow> astype_int (sqrt x) = \<lfloor>sqrt x\<rfloor>"
  by (simp add: astype_int_def)

lemma column_setitem_other:
  "c \<noteq> c' \<Longrightarrow> length df \<le> length ds \<Longrightarrow> column (setitem df c' ds) c = column df c"
proof (induction df arbitrary: ds)
  case Nil
  then show ?case by (simp add: setitem_def)
next
  case (Cons r df)
  then obtain d ds' where ds: "ds = d # ds'" by (cases ds) auto
  with Cons have "column (setitem df c' ds') c = column df c" by simp
  with ds Cons.prems(1) show ?case by (simp add: setitem_def getitem_def)
qed

lemma setitem_rows:
  assumes "r' \<in> set (setitem df c ds)"
  shows "\<exists>j<length df. j < length ds \<and> r' = (df ! j)\<lparr>cells := (cells (df ! j))(c \<mapsto> ds ! j)\<rparr>"
proof -
  from assms obtain r d where "(r, d) \<in> set (zip df ds)" "r' = r\<lparr>cells := (cells r)(c \<mapsto> d)\<rparr>"
    by (auto simp: setitem_def)
  then show ?thesis by (auto simp: in_set_zip)
qed

text \<open>
  C5 as stated fails on the order among equal distances. The table is sorted in place, so
  the sort of a point starts from the order the previous point left, and even a sort that
  keeps equal keys in the order it finds them, as the one modelled here, does not restore
  the order of the reference dataset. With the two locations of the pair example, the first
  point puts the second location first; for the second point both are at the truncated
  distance 5 and the second location (label 1) stays before the first (label 0).
\<close>

theorem tie_order_not_original:
  "map (\<lambda>r. (label r, cells r ''Distance''))
       (popLocations_after (geocontext pair_points pair_locations (PyList [''G''])
          (PyList [''Pop'']) [True] (PyList [1]) ''North'' ''East'' ''North'' ''East''))
     = [(1, Some 5), (0, Some 5)]
   \<and> map label pair_locations = [0, 1]
   \<and> result_column (geocontext pair_points pair_locations (PyList [''G''])
          (PyList [''Pop'']) [True] (PyList [1]) ''North'' ''East'' ''North'' ''East'') ''radius_k1''
     = Inr [Some (Num 0), Some (Num 5)]"
  by (simp add: pair_after_both_points)
     (simp add: evaluate pair_points_def pair_locations_def sqrt_100 sqrt_25)


text \<open>
  C5, amended: for a point whose coordinates exist and a table that has the coordinate
  columns, the step succeeds; it writes into every row the Euclidean distance to the point,
  truncated to an integer, and leaves the same rows (apart from that cell) in an order that
  is ascending in the truncated distance. The order among equal distances is not the
  original order of the reference dataset in general.
\<close>

theorem distance_index_ordering:
  "getitem point pointsNorth = Inr pn \<and> getitem point pointsEast = Inr pe
   \<and> column popLocations popLocationsNorth = Inr lns
   \<and> column popLocations popLocationsEast = Inr les
   \<and> popLocationsNorth \<noteq> ''Distance'' \<and> popLocationsEast \<noteq> ''Distance'' \<longrightarrow>
   (\<exists>df'. distance_index point pointsNorth pointsEast popLocations popLocationsNorth
            popLocationsEast = Inr df'
      \<and> sorted (map (\<lambda>r. the (cells r ''Distance'')) df')
      \<and> mset (map without_distance df') = mset (map without_distance popLocations)
      \<and> (\<forall>r\<in>set df'. \<exists>ln le. cells r popLocationsNorth = Some ln
            \<and> cells r popLocationsEast = Some le
            \<and> cells r ''Distance''
                = Some (real_of_int \<lfloor>sqrt ((pn - ln)\<^sup>2 + (pe - le)\<^sup>2)\<rfloor>)))"
proof
  assume h: "getitem point pointsNorth = Inr pn \<and> getitem point pointsEast = Inr pe
   \<and> column popLocations popLocationsNorth = Inr lns
   \<and> column popLocations popLocationsEast = Inr les
   \<and> popLocationsNorth \<noteq> ''Distance'' \<and> popLocationsEast \<noteq> ''Distance''"
  define ds where "ds = map (\<lambda>(ln, le). real_of_int (astype_int (sqrt ((pn - ln)\<^sup>2 + (pe - le)\<^sup>2))))
      (zip lns les)"
  define df' where "df' = sort_values (setitem popLocations ''Distance'' ds)"
  from h have d: "distances point pointsNorth pointsEast popLocations popLocationsNorth
      popLocationsEast = Inr ds"
    by (simp add: distances_def ds_def)
  then have run: "distance_index point pointsNorth pointsEast popLocations popLocationsNorth
            popLocationsEast = Inr df'"
    by (simp add: distance_index_def df'_def)
  from h have ln: "lns = map (\<lambda>r. the (cells r popLocationsNorth)) popLocations"
    and lnS: "\<forall>r\<in>set popLocations. cells r popLocationsNorth = Some (the (cells r popLocationsNorth))"
    and le: "les = map (\<lambda>r. the (cells r popLocationsEast)) popLocations"
    and leS: "\<forall>r\<in>set popLocations. cells r popLocationsEast = Some (the (cells r popLocationsEast))"
    using column_Inr_map by blast+
  have len: "length ds = length popLocations" using distances_length[OF d] .
  have rows: "\<exists>ln le. cells r popLocationsNorth = Some ln
            \<and> cells r popLocationsEast = Some le
            \<and> cells r ''Distance''
                = Some (real_of_int \<lfloor>sqrt ((pn - ln)\<^sup>2 + (pe - le)\<^sup>2)\<rfloor>)" if "r \<in> set df'" for r
  proof -
    from that have "r \<in> set (setitem popLocations ''Distance'' ds)"
      by (simp add: df'_def set_sort_values)
    from setitem_rows[OF this] obtain j where j: "j < length popLocations"
      "r = (popLocations ! j)\<lparr>cells := (cells (popLocations ! j))(''Distance'' \<mapsto> ds ! j)\<rparr>"
      by blast
    define r0 where "r0 = popLocations ! j"
    have r0: "r0 \<in> set popLocations" using j(1) by (simp add: r0_def)
    have "ds ! j = real_of_int \<lfloor>sqrt ((pn - the (cells r0 popLocationsNorth))\<^sup>2
        + (pe - the (cells r0 popLocationsEast))\<^sup>2)\<rfloor>"
      using j(1) by (simp add: ds_def ln le r0_def astype_int_sqrt)
    moreover have "cells r popLocationsNorth = cells r0 popLocationsNorth"
      "cells r popLocationsEast = cells r0 popLocationsEast" "cells r ''Distance'' = Some (ds ! j)"
      using h j(2) by (simp_all add: r0_def)
    ultimately show ?thesis using lnS leS r0 by auto
  qed
  from distance_index_table[OF run] rows run
  show "\<exists>df'. distance_index point pointsNorth pointsEast popLocations popLocationsNorth
            popLocationsEast = Inr df'
      \<and> sorted (map (\<lambda>r. the (cells r ''Distance'')) df')
      \<and> mset (map without_distance df') = mset (map without_distance popLocations)
      \<and> (\<forall>r\<in>set df'. \<exists>ln le. cells r popLocationsNorth = Some ln
            \<and> cells r popLocationsEast = Some le
            \<and> cells r ''Distance''
                = Some (real_of_int \<lfloor>sqrt ((pn - ln)\<^sup>2 + (pe - le)\<^sup>2)\<rfloor>))"
    by (intro exI[of _ df']) (simp add: df'_def sorted_sort_values)
qed

theorem distance_index_ordering_witness:
  "getitem scenario_point ''North'' = Inr 0 \<and> getitem scenario_point ''East'' = Inr 0
   \<and> column scenario_locations ''North'' = Inr [0, 3, 6]
   \<and> column scenario_locations ''East'' = Inr [0, 4, 8]
   \<and> ''North'' \<noteq> ''Distance'' \<and> ''East'' \<noteq> ''Distance''
   \<and> distance_index scenario_point ''North'' ''East'' scenario_locations ''North'' ''East''
       = Inr scenario_sorted
   \<and> sorted (map (\<lambda>r. the (cells r ''Distance'')) scenario_sorted)
   \<and> mset (map without_distance scenario_sorted) = mset (map without_distance scenario_locations)
   \<and> map (\<lambda>r. cells r ''Distance'') scenario_sorted = [Some 0, Some 5, Some 10]"
proof -
  have h: "getitem scenario_point ''North'' = Inr 0 \<and> getitem scenario_point ''East'' = Inr 0
     \<and> column scenario_locations ''North'' = Inr [0, 3, 6]
     \<and> column scenario_locations ''East'' = Inr [0, 4, 8]
     \<and> ''North'' \<noteq> ''Distance'' \<and> ''East'' \<noteq> ''Distance''"
    by (simp add: scenario_point_def scenario_locations_def getitem_def table_row_def)
  have run: "distance_index scenario_point ''North'' ''East'' scenario_locations ''North'' ''East''
       = Inr scenario_sorted"
    by (simp add: distance_index_def distances_def scenario_point_def scenario_locations_def
        scenario_sorted_def getitem_def astype_int_def setitem_def sort_values_def table_row_def
        sqrt_25 sqrt_100)
  from distance_index_ordering [of scenario_point "''North''" 0 "''East''" 0 scenario_locations
      "''North''" "[0, 3, 6]" "''East''" "[0, 4, 8]"] h
  obtain df' where "distance_index scenario_point ''North'' ''East'' scenario_locations
      ''North'' ''East'' = Inr df'"
    "sorted (map (\<lambda>r. the (cells r ''Distance'')) df')"
    "mset (map without_distance df') = mset (map without_distance scenario_locations)"
    by blast
  with run have "sorted (map (\<lambda>r. the (cells r ''Distance'')) scenario_sorted)"
    "mset (map without_distance scenario_sorted) = mset (map without_distance scenario_locations)"
    by simp_all
  moreover have "map (\<lambda>r. cells r ''Distance'') scenario_sorted = [Some 0, Some 5, Some 10]"
    by (simp add: scenario_sorted_def table_row_def)
  ultimately show ?thesis using h run by blast
qed

section \<open>C6: the weighted mean and standard deviation\<close>

lemma zip_map_fst_sum:
  "(\<Sum>(x, w)\<leftarrow>zip (map f vs) ws. x * w) = (\<Sum>(v, w)\<leftarrow>zip vs ws. f v * (w::real))"
  by (simp add: zip_map1 case_prod_unfold comp_def)

lemma weighted_squares_nonneg:
  assumes "\<forall>w\<in>set ws. (0::real) \<le> w"
  shows "0 \<le> (\<Sum>(v, w)\<leftarrow>zip vs ws. (v - m)\<^sup>2 * w)"
proof (rule sum_list_nonneg)
  fix x assume "x \<in> set (map (\<lambda>(v, w). (v - m)\<^sup>2 * w) (zip vs ws))"
  then obtain v w where "(v, w) \<in> set (zip vs ws)" "x = (v - m)\<^sup>2 * w" by auto
  moreover from this have "w \<in> set ws" by (auto dest: set_zip_rightD)
  ultimately show "0 \<le> x" using assms by simp
qed

lemma weighted_general:
  assumes "column selection grp = Inr vs" "column selection pop_Column = Inr ws"
    and "\<forall>w\<in>set ws. 0 \<le> w" "sum_list ws \<noteq> 0"
  shows "weighted selection grp pop_Column =
      Inr ((\<Sum>(v, w)\<leftarrow>zip vs ws. v * w) / sum_list ws,
           sqrt ((\<Sum>(v, w)\<leftarrow>zip vs ws.
                             (v - (\<Sum>(v, w)\<leftarrow>zip vs ws. v * w) / sum_list ws)\<^sup>2 * w)
                          / sum_list ws))"
proof -
  have pos: "0 < sum_list ws"
    using assms(3,4) sum_list_nonneg[of ws] by fastforce
  have "0 \<le> (\<Sum>(v, w)\<leftarrow>zip vs ws. (v - m)\<^sup>2 * w) / sum_list ws" for m
    using weighted_squares_nonneg[OF assms(3)] pos by simp
  then show ?thesis
    using assms(1,2,4)
    by (simp add: weighted_def np_average_def math_sqrt_def zip_map_fst_sum not_less)
qed

text \<open>
  C6: with the flag false, the statistics stored for a selection with non-negative
  population weights that do not sum to zero (where \<open>np.average\<close> raises) are the
  population-weighted mean and the square root of the population-weighted mean of the
  squared deviations from it, divided by the sum of the weights and by nothing smaller (no
  Bessel correction). For a selection of two locations with populations \<open>wa\<close>, \<open>wb\<close> and
  group values \<open>va\<close>, \<open>vb\<close> these are \<open>(wa va + wb vb) / (wa + wb)\<close> and the root of
  \<open>(wa (va - mean)\<^sup>2 + wb (vb - mean)\<^sup>2) / (wa + wb)\<close>.
\<close>

theorem weighted_statistics:
  "(column selection grp = Inr vs \<and> column selection pop_Column = Inr ws
      \<and> (\<forall>w\<in>set ws. 0 \<le> w) \<and> sum_list ws \<noteq> 0 \<longrightarrow>
    aggregate selection grp pop_Column False kValue result =
      Inr (result(''mean_'' @ grp @ ''_k'' @ str_int kValue \<mapsto>
                    (\<Sum>(v, w)\<leftarrow>zip vs ws. v * w) / sum_list ws,
                  ''std_'' @ grp @ ''_k'' @ str_int kValue \<mapsto>
                    sqrt ((\<Sum>(v, w)\<leftarrow>zip vs ws.
                             (v - (\<Sum>(v, w)\<leftarrow>zip vs ws. v * w) / sum_list ws)\<^sup>2 * w)
                          / sum_list ws))))
   \<and> (cells ra grp = Some va \<and> cells rb grp = Some vb
      \<and> cells ra pop_Column = Some wa \<and> cells rb pop_Column = Some wb
      \<and> 0 \<le> wa \<and> 0 \<le> wb \<and> wa + wb \<noteq> 0 \<longrightarrow>
    aggregate [ra, rb] grp pop_Column False kValue result =
      Inr (result(''mean_'' @ grp @ ''_k'' @ str_int kValue \<mapsto>
                    (wa * va + wb * vb) / (wa + wb),
                  ''std_'' @ grp @ ''_k'' @ str_int kValue \<mapsto>
                    sqrt ((wa * (va - (wa * va + wb * vb) / (wa + wb))\<^sup>2
                           + wb * (vb - (wa * va + wb * vb) / (wa + wb))\<^sup>2)
                          / (wa + wb)))))"
proof (intro conjI impI)
  assume "column selection grp = Inr vs \<and> column selection pop_Column = Inr ws
      \<and> (\<forall>w\<in>set ws. 0 \<le> w) \<and> sum_list ws \<noteq> 0"
  then show "aggregate selection grp pop_Column False kValue result =
      Inr (result(''mean_'' @ grp @ ''_k'' @ str_int kValue \<mapsto>
                    (\<Sum>(v, w)\<leftarrow>zip vs ws. v * w) / sum_list ws,
                  ''std_'' @ grp @ ''_k'' @ str_int kValue \<mapsto>
                    sqrt ((\<Sum>(v, w)\<leftarrow>zip vs ws.
                             (v - (\<Sum>(v, w)\<leftarrow>zip vs ws. v * w) / sum_list ws)\<^sup>2 * w)
                          / sum_list ws)))"
    by (simp add: aggregate_def weighted_general)
next
  assume a: "cells ra grp = Some va \<and> cells rb grp = Some vb
      \<and> cells ra pop_Column = Some wa \<and> cells rb pop_Column = Some wb
      \<and> 0 \<le> wa \<and> 0 \<le> wb \<and> wa + wb \<noteq> 0"
  then have c: "column [ra, rb] grp = Inr [va, vb]" "column [ra, rb] pop_Column = Inr [wa, wb]"
    by (simp_all add: getitem_def)
  have "weighted [ra, rb] grp pop_Column =
      Inr ((\<Sum>(v, w)\<leftarrow>zip [va, vb] [wa, wb]. v * w) / sum_list [wa, wb],
           sqrt ((\<Sum>(v, w)\<leftarrow>zip [va, vb] [wa, wb].
                    (v - (\<Sum>(v, w)\<leftarrow>zip [va, vb] [wa, wb]. v * w) / sum_list [wa, wb])\<^sup>2 * w)
                 / sum_list [wa, wb]))"
    by (rule weighted_general[OF c]) (use a in auto)
  then show "aggregate [ra, rb] grp pop_Column False kValue result =
      Inr (result(''mean_'' @ grp @ ''_k'' @ str_int kValue \<mapsto>
                    (wa * va + wb * vb) / (wa + wb),
                  ''std_'' @ grp @ ''_k'' @ str_int kValue \<mapsto>
                    sqrt ((wa * (va - (wa * va + wb * vb) / (wa + wb))\<^sup>2
                           + wb * (vb - (wa * va + wb * vb) / (wa + wb))\<^sup>2)
                          / (wa + wb))))"
    by (simp add: aggregate_def mult.commute)
qed

theorem weighted_statistics_witness:
  "column [table_row 0 [(''Pop'', 1), (''G'', 2)], table_row 1 [(''Pop'', 3), (''G'', 6)]] ''G''
     = Inr [2, 6]
   \<and> column [table_row 0 [(''Pop'', 1), (''G'', 2)], table_row 1 [(''Pop'', 3), (''G'', 6)]] ''Pop''
     = Inr [1, 3]
   \<and> cells (table_row 0 [(''Pop'', 1), (''G'', 2)]) ''G'' = Some 2
   \<and> cells (table_row 1 [(''Pop'', 3), (''G'', 6)]) ''G'' = Some 6
   \<and> cells (table_row 0 [(''Pop'', 1), (''G'', 2)]) ''Pop'' = Some 1
   \<and> cells (table_row 1 [(''Pop'', 3), (''G'', 6)]) ''Pop'' = Some 3
   \<and> aggregate [table_row 0 [(''Pop'', 1), (''G'', 2)], table_row 1 [(''Pop'', 3), (''G'', 6)]]
       ''G'' ''Pop'' False 4 Map.empty
     = Inr [''mean_G_k4'' \<mapsto> 5, ''std_G_k4'' \<mapsto> sqrt 3]"
proof -
  have c: "cells (table_row 0 [(''Pop'', 1), (''G'', 2)]) ''G'' = Some 2"
    "cells (table_row 1 [(''Pop'', 3), (''G'', 6)]) ''G'' = Some 6"
    "cells (table_row 0 [(''Pop'', 1), (''G'', 2)]) ''Pop'' = Some 1"
    "cells (table_row 1 [(''Pop'', 3), (''G'', 6)]) ''Pop'' = Some 3"
    by (simp_all add: table_row_def)
  have d: "column [table_row 0 [(''Pop'', 1), (''G'', 2)], table_row 1 [(''Pop'', 3), (''G'', 6)]]
       ''G'' = Inr [2, 6]"
    "column [table_row 0 [(''Pop'', 1), (''G'', 2)], table_row 1 [(''Pop'', 3), (''G'', 6)]]
       ''Pop'' = Inr [1, 3]"
    by (simp_all add: getitem_def c)
  have "aggregate [table_row 0 [(''Pop'', 1), (''G'', 2)], table_row 1 [(''Pop'', 3), (''G'', 6)]]
       ''G'' ''Pop'' False 4 Map.empty
     = Inr [''mean_G_k4'' \<mapsto> 5, ''std_G_k4'' \<mapsto> sqrt 3]"
    using c d weighted_statistics [of
        "[table_row 0 [(''Pop'', 1), (''G'', 2)], table_row 1 [(''Pop'', 3), (''G'', 6)]]"
        "''G''" "[2, 6]" "''Pop''" "[1, 3]" 4 Map.empty
        "table_row 0 [(''Pop'', 1), (''G'', 2)]" 2
        "table_row 1 [(''Pop'', 3), (''G'', 6)]" 6 1 3]
    by (simp add: str_int_def str_nat.simps)
  with c d show ?thesis by simp
qed

section \<open>C7: the caller's reference table after the call\<close>





section \<open>C8: a k-value above the total population\<close>

lemma sum_take_le:
  assumes "\<forall>p\<in>set pops. (0::real) \<le> p"
  shows "sum_list (take n pops) \<le> sum_list pops"
proof -
  have "sum_list pops = sum_list (take n pops) + sum_list (drop n pops)"
    by (metis append_take_drop_id sum_list_append)
  moreover have "0 \<le> sum_list (drop n pops)"
    using assms by (intro sum_list_nonneg) (auto dest: in_set_dropD)
  ultimately show ?thesis by simp
qed

lemma radius_loop_aborts:
  assumes "column df pc = Inr pops" "0 \<le> i" "i \<le> int (length pops)"
    and "acc = sum_list (take (nat i) pops)" "k \<in> set ks"
    and "\<forall>n\<le>length pops. sum_list (take n pops) < real_of_int k"
  shows "\<exists>e. radius_loop df pc multi groups gi ks (acc, i, rl, res) = Inl e"
  using assms(2-5)
proof (induction ks arbitrary: acc i rl res)
  case Nil
  then show ?case by simp
next
  case (Cons k' ks)
  show ?case
  proof (cases "while_walk (Inr pops) k' acc i")
    case (Inl e)
    with assms(1) show ?thesis by simp
  next
    case (Inr st)
    obtain a1 i1 where st: "st = (a1, i1)" by (cases st)
    from while_walk_Inr[OF Inr[unfolded st] refl Cons.prems(1,2,3)]
    have w: "i \<le> i1" "i1 \<le> int (length pops)" "a1 = sum_list (take (nat i1) pops)"
      "real_of_int k' \<le> a1"
      by auto
    have i1: "0 \<le> i1" using w(1) Cons.prems(1) by simp
    have "k \<noteq> k'"
    proof
      assume "k = k'"
      moreover have "nat i1 \<le> length pops" using w(2) i1 by simp
      ultimately show False using assms(6) w(3,4) by fastforce
    qed
    with Cons.prems(4) have mem: "k \<in> set ks" by simp
    show ?thesis
    proof (cases "and_then (column df ''Distance'') (\<lambda>ds. iloc ds (i1 - 1))")
      case (Inl e)
      with assms(1) Inr st show ?thesis by simp
    next
      case r: (Inr r)
      show ?thesis
      proof (cases "if multi
        then and_then (list_get groups gi)
               (\<lambda>g. Inr (res(''radius_'' @ g @ ''_k'' @ str_int k' \<mapsto> r)))
        else Inr (res(''radius_k'' @ str_int k' \<mapsto> r))")
        case (Inl e)
        with assms(1) Inr st r show ?thesis by simp
      next
        case s: (Inr res1)
        from Cons.IH[OF i1 w(2,3) mem, of "rl @ [r]" res1]
        show ?thesis using assms(1) Inr st r s by simp
      qed
    qed
  qed
qed

lemma measure_step_aborts:
  assumes "column df pc = Inr pops" "k \<in> set ks"
    and "\<forall>p\<in>set pops. 0 \<le> p" "sum_list pops < real_of_int k"
  shows "\<exists>e. measure_step df multi groups proportions ks pc gi res = Inl e"
proof -
  have "\<forall>n\<le>length pops. sum_list (take n pops) < real_of_int k"
    using sum_take_le[OF assms(3)] assms(4) by (meson order_le_less_trans)
  from radius_loop_aborts[OF assms(1) _ _ _ assms(2) this, of 0 0 multi groups gi "[]" res]
  show ?thesis by (auto simp: measure_step_def)
qed

lemma populations_loop_aborts:
  assumes "column df pc = Inr pops" "k \<in> set ks"
    and "\<forall>p\<in>set pops. 0 \<le> p" "sum_list pops < real_of_int k" "pc \<in> set ps"
  shows "\<exists>e. populations_loop df multi groups proportions ks ps gi res = Inl e"
  using assms(5)
proof (induction ps arbitrary: gi res)
  case Nil
  then show ?case by simp
next
  case (Cons p ps)
  show ?case
  proof (cases "measure_step df multi groups proportions ks p gi res")
    case (Inl e)
    then show ?thesis by simp
  next
    case (Inr res1)
    with measure_step_aborts[OF assms(1-4), of multi groups proportions gi res]
    have "p \<noteq> pc" by auto
    with Cons.prems have "pc \<in> set ps" by simp
    from Cons.IH[OF this, of "gi + 1" res1] Inr show ?thesis by simp
  qed
qed

lemma column_Inr_intro:
  "\<forall>r\<in>set df. cells r c \<noteq> None \<Longrightarrow> column df c = Inr (map (\<lambda>r. the (cells r c)) df)"
  by (induction df) (auto simp: getitem_def)

lemma column_permuted:
  assumes "mset df' = mset df" "column df c = Inr xs"
  shows "\<exists>xs'. column df' c = Inr xs' \<and> mset xs' = mset xs"
proof -
  from column_Inr_map[OF assms(2)] have xs: "xs = map (\<lambda>r. the (cells r c)) df"
    and some: "\<forall>r\<in>set df. cells r c \<noteq> None" by auto
  have "set df' = set df" using assms(1) by (rule mset_eq_setD)
  with some have "column df' c = Inr (map (\<lambda>r. the (cells r c)) df')"
    by (intro column_Inr_intro) simp
  moreover have "mset (map (\<lambda>r. the (cells r c)) df') = mset xs"
    using assms(1) by (simp add: xs)
  ultimately show ?thesis by blast
qed

lemma check_format_Inr:
  "check_format groups populations kValues = Inr (gs, ps, multi, ks)
   \<Longrightarrow> gs = items groups \<and> ps = items populations \<and> ks = items kValues"
  by (auto simp: check_format_def and_then_eq_Inr split: if_splits)

lemma first_point_aborts:
  assumes "column df pc = Inr pops" "pc \<noteq> ''Distance''" "k \<in> set ks"
    and "\<forall>p\<in>set pops. 0 \<le> p" "sum_list pops < real_of_int k" "pc \<in> set ps"
  shows "\<exists>e df'. points_loop pointsNorth pointsEast popLocationsNorth popLocationsEast multi
      groups ps proportions ks (point # rest) df results = (Inl e, df')"
proof (cases "distance_index point pointsNorth pointsEast df popLocationsNorth popLocationsEast")
  case (Inl e)
  then show ?thesis by simp
next
  case (Inr df1)
  then obtain ds where ds: "distances point pointsNorth pointsEast df popLocationsNorth
      popLocationsEast = Inr ds"
    and df1: "df1 = sort_values (setitem df ''Distance'' ds)"
    by (auto simp: distance_index_def and_then_eq_Inr)
  have "column (setitem df ''Distance'' ds) pc = Inr pops"
    using assms(1,2) distances_length[OF ds] by (simp add: column_setitem_other)
  from column_permuted[OF _ this, of df1] obtain pops' where
    p': "column df1 pc = Inr pops'" "mset pops' = mset pops"
    by (auto simp: df1 mset_sort_values)
  have "set pops' = set pops" using p'(2) by (rule mset_eq_setD)
  moreover have "sum_list pops' = sum_list pops"
    using p'(2) by (metis sum_mset_sum_list)
  ultimately have "\<forall>p\<in>set pops'. 0 \<le> p" "sum_list pops' < real_of_int k"
    using assms(4,5) by simp_all
  from populations_loop_aborts[OF p'(1) assms(3) this assms(6), of multi groups proportions 0 Map.empty]
  obtain e where "populations_loop df1 multi groups proportions ks ps 0 Map.empty = Inl e"
    by blast
  with Inr show ?thesis by simp
qed

text \<open>
  C8: when a requested k exceeds the sum of a configured population column over the whole
  reference table (a column of non-negative values, other than the scratch column
  \<open>Distance\<close>), geocontext raises and returns no table. In the walk the raise is the
  IndexError of the positional read one past the last row; with no point at all it is the
  KeyError of \<open>set_index\<close>, and an earlier check or lookup may raise first.
\<close>

theorem insufficient_population_aborts:
  "pop_Column \<in> set (items populations) \<and> k \<in> set (items kValues)
   \<and> pop_Column \<noteq> ''Distance'' \<and> column popLocations pop_Column = Inr pops
   \<and> (\<forall>p\<in>set pops. 0 \<le> p) \<and> sum_list pops < real_of_int k \<longrightarrow>
   (\<exists>e. returned (geocontext points popLocations groups populations proportions kValues
           pointsNorth pointsEast popLocationsNorth popLocationsEast) = Inl e)"
proof
  assume h: "pop_Column \<in> set (items populations) \<and> k \<in> set (items kValues)
   \<and> pop_Column \<noteq> ''Distance'' \<and> column popLocations pop_Column = Inr pops
   \<and> (\<forall>p\<in>set pops. 0 \<le> p) \<and> sum_list pops < real_of_int k"
  show "\<exists>e. returned (geocontext points popLocations groups populations proportions kValues
           pointsNorth pointsEast popLocationsNorth popLocationsEast) = Inl e"
  proof (cases "check_format groups populations kValues")
    case (Inl e)
    then show ?thesis by (simp add: geocontext_def)
  next
    case (Inr cfg)
    obtain gs ps multi ks where cfg: "cfg = (gs, ps, multi, ks)" by (cases cfg)
    from check_format_Inr[OF Inr[unfolded cfg]] have ps: "ps = items populations"
      and ks: "ks = items kValues" by simp_all
    define df0 where "df0 = setitem popLocations ''Distance'' (replicate (length popLocations) 0)"
    have c0: "column df0 pop_Column = Inr pops"
      using h by (simp add: df0_def column_setitem_other)
    show ?thesis
    proof (cases points)
      case Nil
      with Inr cfg show ?thesis by (simp add: geocontext_def concat_results_def)
    next
      case (Cons point rest)
      from h ks ps have "k \<in> set (sort ks)" "pop_Column \<in> set ps" by simp_all
      from first_point_aborts[OF c0 _ this(1) _ _ this(2), of pointsNorth pointsEast
          popLocationsNorth popLocationsEast multi gs proportions point rest "[]"] h
      obtain e df' where "points_loop pointsNorth pointsEast popLocationsNorth popLocationsEast
          multi gs ps proportions (sort ks) (point # rest) df0 [] = (Inl e, df')"
        by blast
      with Inr cfg Cons show ?thesis by (simp add: geocontext_def df0_def)
    qed
  qed
qed

theorem insufficient_population_aborts_witness:
  "''Pop'' \<in> set (items (PyList [''Pop''])) \<and> (11 :: int) \<in> set (items (PyList [4, 11]))
   \<and> ''Pop'' \<noteq> ''Distance'' \<and> column scenario_locations ''Pop'' = Inr [2, 3, 5]
   \<and> list_all (\<lambda>p. 0 \<le> p) [2, 3, 5 :: real] \<and> sum_list [2, 3, 5 :: real] < real_of_int 11
   \<and> returned (geocontext [scenario_point] scenario_locations (PyList [''G''])
        (PyList [''Pop'']) [True] (PyList [4, 11]) ''North'' ''East'' ''North'' ''East'')
     = Inl (IndexError ''single positional indexer is out-of-bounds'')"
proof -
  have h: "''Pop'' \<in> set (items (PyList [''Pop''])) \<and> (11 :: int) \<in> set (items (PyList [4, 11]))
   \<and> ''Pop'' \<noteq> ''Distance'' \<and> column scenario_locations ''Pop'' = Inr [2, 3, 5]
   \<and> (\<forall>p\<in>set [2, 3, 5 :: real]. 0 \<le> p) \<and> sum_list [2, 3, 5 :: real] < real_of_int 11"
    by (simp add: items_def scenario_locations_def getitem_def table_row_def)
  have e: "returned (geocontext [scenario_point] scenario_locations (PyList [''G''])
        (PyList [''Pop'']) [True] (PyList [4, 11]) ''North'' ''East'' ''North'' ''East'')
     = Inl (IndexError ''single positional indexer is out-of-bounds'')"
    by (simp add: evaluate scenario_point_def scenario_locations_def sqrt_25 sqrt_100)
  from insufficient_population_aborts [of "''Pop''" "PyList [''Pop'']" 11 "PyList [4, 11]"
      scenario_locations "[2, 3, 5]" "[scenario_point]" "PyList [''G'']" "[True]"
      "''North''" "''East''" "''North''" "''East''"] h
  have "\<exists>e. returned (geocontext [scenario_point] scenario_locations (PyList [''G''])
        (PyList [''Pop'']) [True] (PyList [4, 11]) ''North'' ''East'' ''North'' ''East'') = Inl e"
    by blast
  with h e show ?thesis by (simp add: list_all_iff)
qed

section \<open>C9: configuration errors\<close>

text \<open>
  C9 as stated fails twice on the code. A population specification that is a single column
  name, not wrapped in a list, is rejected with the TypeError of line 110; and an empty
  population list with a non-empty group list is rejected with the IndexError of line 108,
  although its length is not greater than one.
\<close>

theorem single_population_name_rejected:
  "returned (geocontext [table_row 0 [(''North'', 0), (''East'', 0)]]
       [table_row 0 [(''North'', 0), (''East'', 0), (''Pop'', 2), (''G'', 1)]]
       (PyList [''G'']) (PyStr ''Pop'') [True] (PyList [1])
       ''North'' ''East'' ''North'' ''East'')
     = Inl (TypeError ''populations need to be a column name or a list with column names'')
   \<and> returned (geocontext [table_row 0 [(''North'', 0), (''East'', 0)]]
       [table_row 0 [(''North'', 0), (''East'', 0), (''Pop'', 2), (''G'', 1)]]
       (PyList [''G'']) (PyList []) [True] (PyList [1])
       ''North'' ''East'' ''North'' ''East'')
     = Inl (IndexError ''populations need to have the same length as groups'')"
  by (simp add: geocontext_def check_format_def is_list_def items_def)

text \<open>
  Every error raised after the format check is a computation error, and none of those is a
  configuration error.
\<close>

lemma computation_not_configuration: "computation_error e \<Longrightarrow> \<not> configuration_error e"
  by (auto simp: computation_error_def configuration_error_def)

lemma getitem_error: "getitem r c = Inl e \<Longrightarrow> computation_error e"
  by (auto simp: getitem_def computation_error_def split: option.splits)

lemma column_error: "column df c = Inl e \<Longrightarrow> computation_error e"
  by (induction df) (auto simp: and_then_eq_Inl dest: getitem_error)

lemma list_get_error: "list_get xs i = Inl e \<Longrightarrow> computation_error e"
  by (auto simp: list_get_def computation_error_def split: if_splits)

lemma iloc_error: "iloc xs i = Inl e \<Longrightarrow> computation_error e"
  by (auto simp: iloc_def Let_def computation_error_def split: if_splits)

lemma while_walk_error:
  assumes "while_walk pcol k acc i = Inl e" "\<And>e'. pcol = Inl e' \<Longrightarrow> computation_error e'"
  shows "computation_error e"
  using assms
proof (induction pcol k acc i rule: while_walk.induct)
  case (1 pcol kValue population index)
  note unf = "1.prems"(1)[unfolded while_walk.simps[of pcol kValue population index]]
  show ?case
  proof (cases pcol)
    case (Inl e')
    with unf "1.prems"(2) show ?thesis by (auto split: if_splits)
  next
    case (Inr pops)
    show ?thesis
    proof (cases "iloc pops index")
      case (Inl e')
      with unf Inr show ?thesis by (auto split: if_splits dest: iloc_error)
    next
      case p: (Inr p)
      with unf Inr have lt: "population < real_of_int kValue"
        and "while_walk pcol kValue (population + p) (index + 1) = Inl e"
        by (auto split: if_splits)
      from "1.IH"[OF lt Inr p this(2) "1.prems"(2)] show ?thesis .
    qed
  qed
qed

lemma radius_loop_error:
  "radius_loop df pc multi groups gi ks st = Inl e \<Longrightarrow> computation_error e"
proof (induction ks arbitrary: st)
  case Nil
  then show ?case by simp
next
  case (Cons k ks)
  obtain acc i rl res where st: "st = (acc, i, rl, res)" by (cases st)
  from Cons.prems[unfolded st] Cons.IH show ?case
    by (cases multi)
       (auto simp: and_then_eq_Inl
          dest: while_walk_error column_error iloc_error list_get_error)
qed

lemma selection_within_error: "selection_within df r = Inl e \<Longrightarrow> computation_error e"
  by (auto simp: selection_within_def and_then_eq_Inl dest: column_error)

lemma np_average_error: "np_average a w = Inl e \<Longrightarrow> computation_error e"
  by (auto simp: np_average_def computation_error_def split: if_splits)

lemma math_sqrt_error: "math_sqrt x = Inl e \<Longrightarrow> computation_error e"
  by (auto simp: math_sqrt_def computation_error_def split: if_splits)

lemma weighted_error: "weighted sel g pc = Inl e \<Longrightarrow> computation_error e"
  by (auto simp: weighted_def and_then_eq_Inl dest: column_error np_average_error math_sqrt_error)

lemma aggregate_error: "aggregate sel g pc flag k res = Inl e \<Longrightarrow> computation_error e"
  by (auto simp: aggregate_def and_then_eq_Inl split: if_splits dest: column_error weighted_error)

lemma group_loop_error:
  "group_loop sel pc props gi k gs res = Inl e \<Longrightarrow> computation_error e"
  by (induction gs arbitrary: res)
     (auto simp: and_then_eq_Inl dest: list_get_error aggregate_error)

lemma stats_step_error:
  "stats_step df pc multi gs props gi ks rl j res = Inl e \<Longrightarrow> computation_error e"
  by (cases multi)
     (auto simp: stats_step_def and_then_eq_Inl
        dest: list_get_error selection_within_error aggregate_error group_loop_error column_error)

lemma stats_loop_error:
  "stats_loop df pc multi gs props gi ks rl js res = Inl e \<Longrightarrow> computation_error e"
  by (induction js arbitrary: res) (auto simp: and_then_eq_Inl dest: stats_step_error)

lemma measure_step_error:
  "measure_step df multi gs props ks pc gi res = Inl e \<Longrightarrow> computation_error e"
  by (auto simp: measure_step_def and_then_eq_Inl dest: radius_loop_error stats_loop_error)

lemma populations_loop_error:
  "populations_loop df multi gs props ks ps gi res = Inl e \<Longrightarrow> computation_error e"
  by (induction ps arbitrary: gi res) (auto simp: and_then_eq_Inl dest: measure_step_error)

lemma distances_error:
  "distances point pn pe df lnn lee = Inl e \<Longrightarrow> computation_error e"
  by (auto simp: distances_def and_then_eq_Inl dest: getitem_error column_error)

lemma distance_index_error:
  "distance_index point pn pe df lnn lee = Inl e \<Longrightarrow> computation_error e"
  by (auto simp: distance_index_def and_then_eq_Inl dest: distances_error)

lemma points_loop_error:
  "points_loop pn pe lnn lee multi gs ps props ks points df results = (Inl e, df')
   \<Longrightarrow> computation_error e"
proof (induction points arbitrary: df results)
  case Nil
  then show ?case by simp
next
  case (Cons point rest)
  then show ?case
    by (auto split: sum.splits dest: distance_index_error populations_loop_error)
qed

lemma ctx_column_error: "ctx_column tbl c = Inl e \<Longrightarrow> computation_error e"
  by (induction tbl) (auto simp: and_then_eq_Inl computation_error_def split: option.splits)

lemma derive_mean_error: "derive_mean tbl t n d = Inl e \<Longrightarrow> computation_error e"
  by (auto simp: derive_mean_def and_then_eq_Inl dest: ctx_column_error)

lemma finish_groups_error:
  "finish_groups multi props k gs gi tbl = Inl e \<Longrightarrow> computation_error e"
  by (induction gs arbitrary: gi tbl)
     (auto simp: and_then_eq_Inl split: if_splits dest: list_get_error derive_mean_error)

lemma finishing_pass_error:
  "finishing_pass multi gs props ks tbl = Inl e \<Longrightarrow> computation_error e"
  by (induction ks arbitrary: tbl) (auto simp: and_then_eq_Inl dest: finish_groups_error)

lemma concat_results_error: "concat_results points results = Inl e \<Longrightarrow> computation_error e"
  by (auto simp: concat_results_def computation_error_def split: if_splits)

lemma check_format_error: "check_format groups populations kValues = Inl e \<Longrightarrow> configuration_error e"
  by (auto simp: check_format_def configuration_error_def and_then_eq_Inl split: if_splits)

lemma geocontext_error_after_check:
  assumes "check_format groups populations kValues = Inr cfg"
    and "returned (geocontext points popLocations groups populations proportions kValues
           pointsNorth pointsEast popLocationsNorth popLocationsEast) = Inl e"
  shows "computation_error e"
proof -
  obtain gs ps multi ks where cfg: "cfg = (gs, ps, multi, ks)" by (cases cfg)
  obtain res df' where pl: "points_loop pointsNorth pointsEast popLocationsNorth popLocationsEast
      multi gs ps proportions (sort ks) points
      (setitem popLocations ''Distance'' (replicate (length popLocations) 0)) [] = (res, df')"
    by (cases "points_loop pointsNorth pointsEast popLocationsNorth popLocationsEast
      multi gs ps proportions (sort ks) points
      (setitem popLocations ''Distance'' (replicate (length popLocations) 0)) []")
  from assms cfg pl have "and_then res (\<lambda>results.
                  and_then (concat_results points results) (\<lambda>tbl.
                    finishing_pass multi gs proportions (sort ks) tbl)) = Inl e"
    by (simp add: geocontext_def)
  then show ?thesis
    using pl
    by (auto simp: and_then_eq_Inl dest: points_loop_error concat_results_error finishing_pass_error)
qed

text \<open>
  C9, amended: geocontext raises a configuration error exactly when the group argument is
  not a list, or the population argument is not a list (a bare column name included), or the
  population list has a length other than one that differs from the length of the group
  list (the empty list included), or the k-value argument is not a list. Such an error comes
  from the format check, and geocontext has then touched neither the reference table nor
  the k-value list: nothing of the per-point work has begun.
\<close>

theorem configuration_errors:
  "((\<exists>e. returned (geocontext points popLocations groups populations proportions kValues
            pointsNorth pointsEast popLocationsNorth popLocationsEast) = Inl e
         \<and> configuration_error e) \<longleftrightarrow>
      (\<not> is_list groups \<or> \<not> is_list populations
       \<or> (is_list groups \<and> is_list populations \<and> length (items populations) \<noteq> 1
           \<and> length (items populations) \<noteq> length (items groups))
       \<or> \<not> is_list kValues))
   \<and> (\<forall>e. returned (geocontext points popLocations groups populations proportions kValues
            pointsNorth pointsEast popLocationsNorth popLocationsEast) = Inl e
         \<and> configuration_error e \<longrightarrow>
          check_format groups populations kValues = Inl e
          \<and> geocontext points popLocations groups populations proportions kValues
            pointsNorth pointsEast popLocationsNorth popLocationsEast
          = \<lparr>returned = Inl e, popLocations_after = popLocations, kValues_after = kValues\<rparr>)"
proof -
  let ?out = "geocontext points popLocations groups populations proportions kValues
            pointsNorth pointsEast popLocationsNorth popLocationsEast"
  have fails: "(\<exists>e. check_format groups populations kValues = Inl e) \<longleftrightarrow>
      (\<not> is_list groups \<or> \<not> is_list populations
       \<or> (is_list groups \<and> is_list populations \<and> length (items populations) \<noteq> 1
           \<and> length (items populations) \<noteq> length (items groups))
       \<or> \<not> is_list kValues)"
    by (cases groups; cases populations; cases kValues)
       (auto simp: check_format_def is_list_def items_def)
  have early: "?out = \<lparr>returned = Inl e, popLocations_after = popLocations, kValues_after = kValues\<rparr>"
    if "check_format groups populations kValues = Inl e" for e
    using that by (simp add: geocontext_def)
  have origin_check: "check_format groups populations kValues = Inl e"
    if "returned ?out = Inl e" "configuration_error e" for e
  proof (cases "check_format groups populations kValues")
    case (Inl e')
    with early[OF Inl] that show ?thesis by simp
  next
    case (Inr cfg)
    from geocontext_error_after_check[OF Inr that(1)] that(2) show ?thesis
      by (simp add: computation_not_configuration)
  qed
  have "(\<exists>e. returned ?out = Inl e \<and> configuration_error e)
      \<longleftrightarrow> (\<exists>e. check_format groups populations kValues = Inl e)"
  proof
    assume "\<exists>e. returned ?out = Inl e \<and> configuration_error e"
    with origin_check show "\<exists>e. check_format groups populations kValues = Inl e" by blast
  next
    assume "\<exists>e. check_format groups populations kValues = Inl e"
    then obtain e where e: "check_format groups populations kValues = Inl e" ..
    with early[OF e] check_format_error[OF e]
    show "\<exists>e. returned ?out = Inl e \<and> configuration_error e" by auto
  qed
  with fails origin_check early show ?thesis by blast
qed


theorem configuration_errors_witness:
  "is_list (PyList [''G'', ''H'']) \<and> is_list (PyList [''P'', ''Q'', ''R''])
   \<and> length (items (PyList [''P'', ''Q'', ''R''])) \<noteq> 1
   \<and> length (items (PyList [''P'', ''Q'', ''R''])) \<noteq> length (items (PyList [''G'', ''H'']))
   \<and> returned (geocontext [table_row 0 [(''North'', 0), (''East'', 0)]]
       [table_row 7 [(''North'', 3), (''East'', 4)]]
       (PyList [''G'', ''H'']) (PyList [''P'', ''Q'', ''R'']) [True, True] (PyList [1])
       ''North'' ''East'' ''North'' ''East'')
     = Inl (IndexError ''populations need to have the same length as groups'')
   \<and> configuration_error (IndexError ''populations need to have the same length as groups'')
   \<and> check_format (PyList [''G'', ''H'']) (PyList [''P'', ''Q'', ''R'']) (PyList [1])
     = Inl (IndexError ''populations need to have the same length as groups'')
   \<and> geocontext [table_row 0 [(''North'', 0), (''East'', 0)]]
       [table_row 7 [(''North'', 3), (''East'', 4)]]
       (PyList [''G'', ''H'']) (PyList [''P'', ''Q'', ''R'']) [True, True] (PyList [1])
       ''North'' ''East'' ''North'' ''East''
     = \<lparr>returned = Inl (IndexError ''populations need to have the same length as groups''),
        popLocations_after = [table_row 7 [(''North'', 3), (''East'', 4)]],
        kValues_after = PyList [1]\<rparr>"
proof -
  have l: "is_list (PyList [''G'', ''H'']) \<and> is_list (PyList [''P'', ''Q'', ''R''])
   \<and> length (items (PyList [''P'', ''Q'', ''R''])) \<noteq> 1
   \<and> length (items (PyList [''P'', ''Q'', ''R''])) \<noteq> length (items (PyList [''G'', ''H'']))"
    by (simp add: is_list_def items_def)
  have r: "returned (geocontext [table_row 0 [(''North'', 0), (''East'', 0)]]
       [table_row 7 [(''North'', 3), (''East'', 4)]]
       (PyList [''G'', ''H'']) (PyList [''P'', ''Q'', ''R'']) [True, True] (PyList [1])
       ''North'' ''East'' ''North'' ''East'')
     = Inl (IndexError ''populations need to have the same length as groups'')"
    by (simp add: geocontext_def check_format_def is_list_def items_def)
  have c: "configuration_error (IndexError ''populations need to have the same length as groups'')"
    by (simp add: configuration_error_def)
  from r c configuration_errors [of "[table_row 0 [(''North'', 0), (''East'', 0)]]"
        "[table_row 7 [(''North'', 3), (''East'', 4)]]" "PyList [''G'', ''H'']"
        "PyList [''P'', ''Q'', ''R'']" "[True, True]" "PyList [1]"
        "''North''" "''East''" "''North''" "''East''"]
  have "check_format (PyList [''G'', ''H'']) (PyList [''P'', ''Q'', ''R'']) (PyList [1])
     = Inl (IndexError ''populations need to have the same length as groups'')
   \<and> geocontext [table_row 0 [(''North'', 0), (''East'', 0)]]
       [table_row 7 [(''North'', 3), (''East'', 4)]]
       (PyList [''G'', ''H'']) (PyList [''P'', ''Q'', ''R'']) [True, True] (PyList [1])
       ''North'' ''East'' ''North'' ''East''
     = \<lparr>returned = Inl (IndexError ''populations need to have the same length as groups''),
        popLocations_after = [table_row 7 [(''North'', 3), (''East'', 4)]],
        kValues_after = PyList [1]\<rparr>"
    by blast
  with l r c show ?thesis by blast
qed

section \<open>C10: a k-value that is not positive\<close>

text \<open>
  C10 as stated also fails: with the k-values 0 and 10 in the scenario both radii are 10,
  so the radii are non-decreasing although the smallest k-value is not positive.
\<close>

theorem radii_nondecreasing_with_nonpositive_threshold:
  "result_column (geocontext [scenario_point] scenario_locations (PyList [''G''])
       (PyList [''Pop'']) [True] (PyList [0, 10]) ''North'' ''East'' ''North'' ''East'') ''radius_k0''
     = Inr [Some (Num 10)]
   \<and> result_column (geocontext [scenario_point] scenario_locations (PyList [''G''])
       (PyList [''Pop'']) [True] (PyList [0, 10]) ''North'' ''East'' ''North'' ''East'') ''radius_k10''
     = Inr [Some (Num 10)]
   \<and> radius_loop scenario_sorted ''Pop'' False [''G''] 0 [0, 10] (0, 0, [], Map.empty)
       = Inr (10, 3, [10, 10], [''radius_k0'' \<mapsto> 10, ''radius_k10'' \<mapsto> 10])
   \<and> sorted [10, 10 :: real]"
  by (simp add: evaluate scenario_point_def scenario_locations_def scenario_sorted_def
      sqrt_25 sqrt_100)


text \<open>
  C10, amended: when the smallest k-value is not positive, the while loop consumes no
  location for it: the accumulator 0 already meets it. The radius is then read at position
  \<open>index - 1 = -1\<close>, which on a table that is not empty is the last row of the ascending
  order, the maximum distance (the missed case behind C3). Every radius of the measure is
  at most that one, so the radii are non-decreasing exactly when all of them equal the
  maximum distance: they may decrease, and they may not.
\<close>

theorem nonpositive_threshold_radius:
  "(column popLocations pop_Column = Inr pops \<and> column popLocations ''Distance'' = Inr dists
      \<and> dists \<noteq> [] \<and> kValue \<le> 0 \<and> store_ok multi groups groupIndex \<longrightarrow>
     while_walk (column popLocations pop_Column) kValue 0 0 = Inr (0, 0)
     \<and> radius_loop popLocations pop_Column multi groups groupIndex (kValue # kValues)
          (0, 0, [], result)
       = radius_loop popLocations pop_Column multi groups groupIndex kValues
          (0, 0, [last dists],
           if multi
           then result(''radius_'' @ groups ! groupIndex @ ''_k'' @ str_int kValue \<mapsto> last dists)
           else result(''radius_k'' @ str_int kValue \<mapsto> last dists)))
   \<and> (column popLocations pop_Column = Inr pops \<and> column popLocations ''Distance'' = Inr dists
      \<and> sorted dists \<and> sorted (kValue # kValues) \<and> kValue \<le> 0
      \<and> radius_loop popLocations pop_Column multi groups groupIndex (kValue # kValues)
           (0, 0, [], result) = Inr (population, index, radius_List, result') \<longrightarrow>
     hd radius_List = last dists \<and> last dists = Max (set dists)
     \<and> (\<forall>r\<in>set radius_List. r \<le> last dists)
     \<and> (sorted radius_List \<longleftrightarrow> (\<forall>r\<in>set radius_List. r = last dists)))"
proof (intro conjI impI)
  assume h: "column popLocations pop_Column = Inr pops \<and> column popLocations ''Distance'' = Inr dists
      \<and> dists \<noteq> [] \<and> kValue \<le> 0 \<and> store_ok multi groups groupIndex"
  then show w: "while_walk (column popLocations pop_Column) kValue 0 0 = Inr (0, 0)"
    by (simp add: while_walk.simps)
  from h show "radius_loop popLocations pop_Column multi groups groupIndex (kValue # kValues)
          (0, 0, [], result)
       = radius_loop popLocations pop_Column multi groups groupIndex kValues
          (0, 0, [last dists],
           if multi
           then result(''radius_'' @ groups ! groupIndex @ ''_k'' @ str_int kValue \<mapsto> last dists)
           else result(''radius_k'' @ str_int kValue \<mapsto> last dists))"
    using w by (simp add: iloc_minus_one store_ok_def list_get_def)
next
  assume h: "column popLocations pop_Column = Inr pops \<and> column popLocations ''Distance'' = Inr dists
      \<and> sorted dists \<and> sorted (kValue # kValues) \<and> kValue \<le> 0
      \<and> radius_loop popLocations pop_Column multi groups groupIndex (kValue # kValues)
           (0, 0, [], result) = Inr (population, index, radius_List, result')"
  then have cols: "column popLocations pop_Column = Inr pops"
    "column popLocations ''Distance'' = Inr dists"
    and sd: "sorted dists" and sk: "sorted (kValue # kValues)" and k: "kValue \<le> 0"
    and run: "radius_loop popLocations pop_Column multi groups groupIndex (kValue # kValues)
           (0, 0, [], result) = Inr (population, index, radius_List, result')"
    by blast+
  from radius_loop_Inr[OF run cols _ _ _ sk]
  have la: "list_all2 (\<lambda>k r. \<exists>n\<le>length pops. real_of_int k \<le> sum_list (take n pops)
                    \<and> (\<forall>m<n. sum_list (take m pops) < real_of_int k)
                    \<and> iloc dists (int n - 1) = Inr r) (kValue # kValues) radius_List"
    by simp
  then obtain r rs where rl: "radius_List = r # rs"
    and r: "\<exists>n\<le>length pops. real_of_int kValue \<le> sum_list (take n pops)
                    \<and> (\<forall>m<n. sum_list (take m pops) < real_of_int kValue)
                    \<and> iloc dists (int n - 1) = Inr r"
    by (auto simp: list_all2_Cons1)
  from r obtain n where n: "\<forall>m<n. sum_list (take m pops) < real_of_int kValue"
    "iloc dists (int n - 1) = Inr r" by blast
  have "n = 0"
  proof (rule ccontr)
    assume "n \<noteq> 0"
    with n(1) have "sum_list (take 0 pops) < real_of_int kValue" by blast
    with k show False by simp
  qed
  with n(2) have r0: "iloc dists (- 1) = Inr r" by simp
  then have ne: "dists \<noteq> []" by (auto simp: iloc_def)
  with r0 have "r = last dists" by (simp add: iloc_minus_one)
  with rl show hd: "hd radius_List = last dists" by simp
  from sd ne show "last dists = Max (set dists)" by (rule sorted_last_Max)
  have mem: "x \<in> set dists" if "x \<in> set radius_List" for x
  proof -
    from that obtain j where j: "j < length radius_List" "radius_List ! j = x"
      by (auto simp: in_set_conv_nth)
    from list_all2_nthD2[OF la j(1)] j(2) show ?thesis by (auto dest: iloc_Inr_mem)
  qed
  then show bound: "\<forall>x\<in>set radius_List. x \<le> last dists"
    using sorted_le_last[OF sd] by blast
  show "sorted radius_List \<longleftrightarrow> (\<forall>x\<in>set radius_List. x = last dists)"
  proof
    assume s: "sorted radius_List"
    show "\<forall>x\<in>set radius_List. x = last dists"
    proof
      fix x assume x: "x \<in> set radius_List"
      with s rl hd have "last dists \<le> x" by auto
      with bound x show "x = last dists" by fastforce
    qed
  next
    assume "\<forall>x\<in>set radius_List. x = last dists"
    then have "radius_List ! i \<le> radius_List ! j" if "j < length radius_List" "i \<le> j" for i j
      using that by (metis nth_mem order_le_less_trans order_refl)
    then show "sorted radius_List"
      by (simp add: sorted_iff_nth_mono)
  qed
qed


theorem nonpositive_threshold_radius_witness:
  "column scenario_sorted ''Pop'' = Inr [2, 3, 5]
   \<and> column scenario_sorted ''Distance'' = Inr [0, 5, 10]
   \<and> [0, 5, 10 :: real] \<noteq> [] \<and> (0 :: int) \<le> 0 \<and> store_ok False [''G''] 0
   \<and> sorted [0, 5, 10 :: real] \<and> sorted [0, 3 :: int]
   \<and> radius_loop scenario_sorted ''Pop'' False [''G''] 0 [0, 3] (0, 0, [], Map.empty)
       = Inr (5, 2, [10, 5], [''radius_k0'' \<mapsto> 10, ''radius_k3'' \<mapsto> 5])
   \<and> while_walk (column scenario_sorted ''Pop'') 0 0 0 = Inr (0, 0)
   \<and> hd [10, 5 :: real] = last [0, 5, 10]
   \<and> \<not> sorted [10, 5 :: real]"
proof -
  have c: "column scenario_sorted ''Pop'' = Inr [2, 3, 5]"
    "column scenario_sorted ''Distance'' = Inr [0, 5, 10]"
    by (rule scenario_columns)+
  have run: "radius_loop scenario_sorted ''Pop'' False [''G''] 0 [0, 3] (0, 0, [], Map.empty)
       = Inr (5, 2, [10, 5], [''radius_k0'' \<mapsto> 10, ''radius_k3'' \<mapsto> 5])"
    by (simp add: c while_walk.simps iloc_def str_int_def str_nat.simps)
  have s: "store_ok False [''G''] 0" by (simp add: store_ok_def)
  note t = nonpositive_threshold_radius [of scenario_sorted "''Pop''" "[2, 3, 5]" "[0, 5, 10]"
      0 False "[''G'']" 0 "[3]" Map.empty 5 2 "[10, 5]" "[''radius_k0'' \<mapsto> 10, ''radius_k3'' \<mapsto> 5]"]
  from t c s have "while_walk (column scenario_sorted ''Pop'') 0 0 0 = Inr (0, 0)" by simp
  moreover from t c run have "hd [10, 5 :: real] = last [0, 5, 10]" by simp
  ultimately show ?thesis using c run s by simp
qed

end
